theory Spec2Isabelle
  imports Complex_Main "HOL-Library.Word"
begin

section \<open>Double-precision values\<close>

text \<open>
  The C++ sources compute with \<^verbatim>\<open>double\<close>.  The model keeps the exceptional values of
  IEEE arithmetic (the infinities and NaN) and idealises the finite ones as reals:
  rounding, overflow and the sign of zero are outside the model.  A comparison with NaN
  is false, a division of zero by zero is NaN.
\<close>

datatype dbl = Fin real | PInf | MInf | NaN

fun dneg :: "dbl \<Rightarrow> dbl" where
  "dneg (Fin a) = Fin (- a)"
| "dneg PInf = MInf"
| "dneg MInf = PInf"
| "dneg NaN = NaN"

fun dadd :: "dbl \<Rightarrow> dbl \<Rightarrow> dbl" where
  "dadd (Fin a) (Fin b) = Fin (a + b)"
| "dadd NaN y = NaN"
| "dadd x NaN = NaN"
| "dadd PInf MInf = NaN"
| "dadd MInf PInf = NaN"
| "dadd PInf y = PInf"
| "dadd x PInf = PInf"
| "dadd MInf y = MInf"
| "dadd x MInf = MInf"

definition dsub :: "dbl \<Rightarrow> dbl \<Rightarrow> dbl" where
  "dsub x y = dadd x (dneg y)"

fun ddiv :: "dbl \<Rightarrow> dbl \<Rightarrow> dbl" where
  "ddiv (Fin a) (Fin b) =
     (if b = 0 then (if a = 0 then NaN else if 0 < a then PInf else MInf)
      else Fin (a / b))"
| "ddiv NaN y = NaN"
| "ddiv x NaN = NaN"
| "ddiv (Fin a) y = Fin 0"
| "ddiv PInf (Fin b) = (if 0 \<le> b then PInf else MInf)"
| "ddiv MInf (Fin b) = (if 0 \<le> b then MInf else PInf)"
| "ddiv x y = NaN"

fun dless :: "dbl \<Rightarrow> dbl \<Rightarrow> bool" where
  "dless (Fin a) (Fin b) = (a < b)"
| "dless NaN y = False"
| "dless x NaN = False"
| "dless MInf MInf = False"
| "dless MInf y = True"
| "dless x PInf = (x \<noteq> PInf)"
| "dless x y = False"

definition dle :: "dbl \<Rightarrow> dbl \<Rightarrow> bool" where
  "dle x y = (dless x y \<or> (x = y \<and> x \<noteq> NaN))"

text \<open>Conversion of a \<^verbatim>\<open>double\<close> to \<^verbatim>\<open>int\<close> truncates toward zero; outside the range of a
  32-bit \<^verbatim>\<open>int\<close> the conversion is undefined, which the model reports as \<open>None\<close>.\<close>

definition trunc_toward_zero :: "real \<Rightarrow> int" where
  "trunc_toward_zero r = (if 0 \<le> r then \<lfloor>r\<rfloor> else \<lceil>r\<rceil>)"

definition double_to_int :: "real \<Rightarrow> int option" where
  "double_to_int r =
     (let t = trunc_toward_zero r
      in if - (2 ^ 31) \<le> t \<and> t < 2 ^ 31 then Some t else None)"

section \<open>RandomDock: the substrate's conformer probabilities (substrate.cpp)\<close>

text \<open>
  The part of a \<^verbatim>\<open>Substrate\<close> that \<^verbatim>\<open>generateProbabilities\<close> and
  \<^verbatim>\<open>getRandomConformerIndex\<close> touch: the conformers with their energies (two parallel
  lists, \<^verbatim>\<open>energies()\<close> makes them equally long), the list \<^verbatim>\<open>m_probs\<close>, and the
  lines written to \<^verbatim>\<open>qDebug()\<close>.
\<close>

record 'c substrate =
  conformers :: "'c list"
  energies :: "real list"
  m_probs :: "dbl list"
  debug_log :: "string list"

definition numConformers :: "'c substrate \<Rightarrow> nat" where
  "numConformers s = length (energies s)"

definition swap_at :: "nat \<Rightarrow> nat \<Rightarrow> 'a list \<Rightarrow> 'a list" where
  "swap_at i j xs = xs[i := xs ! j, j := xs ! i]"

text \<open>The inner loop of the selection sort, over the remaining values of \<open>j\<close>.\<close>

fun sort_inner :: "nat \<Rightarrow> nat list \<Rightarrow> 'c substrate \<Rightarrow> 'c substrate" where
  "sort_inner i [] s = s"
| "sort_inner i (j # js) s =
     sort_inner i js
       (if energies s ! j < energies s ! i
        then s\<lparr>conformers := swap_at i j (conformers s),
               energies := swap_at i j (energies s)\<rparr>
        else s)"

fun sort_outer :: "nat list \<Rightarrow> 'c substrate \<Rightarrow> 'c substrate" where
  "sort_outer [] s = s"
| "sort_outer (i # is) s = sort_outer is (sort_inner i [i ..< numConformers s] s)"

definition sortConformers :: "'c substrate \<Rightarrow> 'c substrate" where
  "sortConformers s =
     sort_outer [0 ..< numConformers s]
       (s\<lparr>debug_log := debug_log s @ [''Substrate::sortConformers( ) called'']\<rparr>)"

text \<open>The last loop of \<^verbatim>\<open>generateProbabilities\<close>: every entry becomes the running total.\<close>

fun cumulate :: "dbl \<Rightarrow> dbl list \<Rightarrow> dbl list" where
  "cumulate acc [] = []"
| "cumulate acc (p # ps) = dadd acc p # cumulate (dadd acc p) ps"

text \<open>
  The body of \<^verbatim>\<open>generateProbabilities\<close> after its early return: the four loops over the
  (sorted) energies.  \<open>lowest\<close> and \<open>highest\<close> are \<^verbatim>\<open>energy(0)\<close> and
  \<^verbatim>\<open>energy(numConformers() - 1)\<close>.
\<close>

definition spread_of :: "real list \<Rightarrow> real" where
  "spread_of es =
     (let lowest = es ! 0; highest = es ! (length es - 1)
      in highest - lowest + (highest - lowest) / real (length es))"

definition weighted_probs :: "real list \<Rightarrow> dbl list" where
  "weighted_probs es =
     (let lowest = es ! 0;
          spread = spread_of es;
          ps1 = map (\<lambda>e. ddiv (Fin (e - lowest)) (Fin spread)) es;
          ps2 = map (\<lambda>p. dsub (Fin 1) p) ps1;
          sum = foldl dadd (Fin 0) ps2;
          ps3 = map (\<lambda>p. ddiv p sum) ps2
      in cumulate (Fin 0) ps3)"

text \<open>
  \<^verbatim>\<open>generateProbabilities\<close>.  With no conformer at all the source reads \<^verbatim>\<open>energy(0)\<close> of
  an empty molecule; the model stops there with \<open>None\<close>.
\<close>

definition generateProbabilities :: "'c substrate \<Rightarrow> 'c substrate option" where
  "generateProbabilities s =
     (if numConformers s = 1 then Some (s\<lparr>m_probs := [Fin 1]\<rparr>)
      else if numConformers s = 0 then None
      else let s1 = sortConformers s
           in Some (s1\<lparr>m_probs := weighted_probs (energies s1)\<rparr>))"

text \<open>The selection loop: the first index whose cumulative probability exceeds \<open>r\<close>,
  or the size of the list when there is none.\<close>

fun chosen_index :: "real \<Rightarrow> dbl list \<Rightarrow> nat" where
  "chosen_index r [] = 0"
| "chosen_index r (p # ps) = (if dless (Fin r) p then 0 else Suc (chosen_index r ps))"

text \<open>
  \<^verbatim>\<open>getRandomConformerIndex\<close>, with the number drawn by \<^verbatim>\<open>rand.NextFloat()\<close> as the
  argument \<open>r\<close>.  The source computes \<^verbatim>\<open>ind\<close> and then executes \<^verbatim>\<open>return r;\<close> in a
  function whose return type is \<^verbatim>\<open>int\<close>.
\<close>

definition getRandomConformerIndex :: "'c substrate \<Rightarrow> real \<Rightarrow> int option \<times> 'c substrate" where
  "getRandomConformerIndex s r =
     (let s1 = s\<lparr>debug_log := debug_log s @ [''Substrate::getRandomConformer( ) called'']\<rparr>;
          ind = chosen_index r (m_probs s1)
      in (double_to_int r, s1))"

section \<open>XtalOpt: candidates, settings and the library they rest on (xtalopt.cpp)\<close>

text \<open>
  The states of a structure.  The enumeration itself is declared outside the files at
  hand; these are the values the specification lists.
\<close>

datatype state =
  Empty | WaitingForOptimization | Submitted | InProcess | StepOptimized
  | Optimized | Duplicate | Error | Killed | Removed

type_synonym vec3 = "real \<times> real \<times> real"

fun vec_at :: "vec3 \<Rightarrow> nat \<Rightarrow> real" where
  "vec_at (x, y, z) i = (if i = 0 then x else if i = 1 then y else z)"

record atom =
  atomicNumber :: nat
  pos :: vec3

text \<open>The geometry of a crystal: the rows of the cell matrix and the atoms.\<close>

record geom =
  cell_matrix :: "vec3 \<times> vec3 \<times> vec3"
  atoms :: "atom list"

text \<open>
  An \<^verbatim>\<open>Xtal\<close> (a \<^verbatim>\<open>Structure\<close>): the bookkeeping fields that the engine reads and
  writes, and the geometry.  \<^verbatim>\<open>generation\<close> and \<^verbatim>\<open>id_number\<close> are \<^verbatim>\<open>uint\<close>; the index
  is an \<^verbatim>\<open>int\<close>.
\<close>

record xtal =
  generation :: "32 word"
  id_number :: "32 word"
  index :: int
  parents :: string
  status :: state
  current_step :: nat
  fail_count :: nat
  energy :: real
  enthalpy :: real
  has_enthalpy :: bool
  PV :: real
  duplicate_string :: string
  file_name :: string
  rempath_of :: string
  opt_timer_end :: nat
  spacegroup :: nat
  geom :: geom

text \<open>
  The session settings that the modelled functions read (public members of
  \<^verbatim>\<open>XtalOpt\<close>).  \<^verbatim>\<open>comp\<close> is a \<^verbatim>\<open>QHash<uint,uint>\<close>; the association list holds its
  keys in the order \<^verbatim>\<open>comp.keys()\<close> returns them.
\<close>

record limits =
  a_min :: real
  a_max :: real
  b_min :: real
  b_max :: real
  c_min :: real
  c_max :: real
  alpha_min :: real
  alpha_max :: real
  beta_min :: real
  beta_max :: real
  gamma_min :: real
  gamma_max :: real

record settings =
  lim :: limits
  vol_min :: real
  vol_max :: real
  vol_fixed :: real
  using_fixed_volume :: bool
  using_shortestInteratomicDistance :: bool
  shortestInteratomicDistance :: real
  tol_enthalpy :: real
  tol_volume :: real
  tol_spg :: real
  comp :: "(nat \<times> nat) list"
  popSize :: "32 word"

record operator_settings =
  p_cross :: nat
  p_strip :: nat
  cross_minimumContribution :: nat
  strip_strainStdev_min :: real
  strip_strainStdev_max :: real
  strip_amp_min :: real
  strip_amp_max :: real
  strip_per1 :: nat
  strip_per2 :: nat
  perm_strainStdev_max :: real
  perm_ex :: nat

text \<open>
  The crystallographic library (\<^verbatim>\<open>Xtal\<close>, OpenBabel's unit cell), which is not part of
  the files at hand, enters as a record of functions on the geometry.
  \<^verbatim>\<open>getShortestInteratomicDistance\<close> returns its distance when it returns true;
  \<^verbatim>\<open>is_nan_or_inf\<close> stands for the macro \<^verbatim>\<open>GS_IS_NAN_OR_INF\<close>.
\<close>

record cell_library =
  getVolume :: "geom \<Rightarrow> real"
  setVolume :: "real \<Rightarrow> geom \<Rightarrow> geom"
  rescaleCell :: "real \<Rightarrow> real \<Rightarrow> real \<Rightarrow> real \<Rightarrow> real \<Rightarrow> real \<Rightarrow> geom \<Rightarrow> geom"
  fixAngles :: "geom \<Rightarrow> geom"
  getA :: "geom \<Rightarrow> real"
  getB :: "geom \<Rightarrow> real"
  getC :: "geom \<Rightarrow> real"
  getAlpha :: "geom \<Rightarrow> real"
  getBeta :: "geom \<Rightarrow> real"
  getGamma :: "geom \<Rightarrow> real"
  is_nan_or_inf :: "real \<Rightarrow> bool"
  getShortestInteratomicDistance :: "geom \<Rightarrow> real option"
  findSpaceGroup :: "real \<Rightarrow> geom \<Rightarrow> nat"

text \<open>
  The random source (the macros \<^verbatim>\<open>INIT_RANDOM_GENERATOR\<close> and \<^verbatim>\<open>RANDDOUBLE\<close>), the
  constructor \<^verbatim>\<open>Xtal(a, b, c, alpha, beta, gamma)\<close> and \<^verbatim>\<open>Xtal::addAtomRandomly\<close>, over a
  generator state of type \<open>'r\<close>.
\<close>

record 'r random_library =
  INIT_RANDOM_GENERATOR :: "'r \<Rightarrow> 'r"
  RANDDOUBLE :: "'r \<Rightarrow> real \<times> 'r"
  newXtal :: "real \<Rightarrow> real \<Rightarrow> real \<Rightarrow> real \<Rightarrow> real \<Rightarrow> real \<Rightarrow> xtal"
  addAtomRandomly :: "nat \<Rightarrow> real \<Rightarrow> geom \<Rightarrow> 'r \<Rightarrow> (bool \<times> geom) \<times> 'r"

subsection \<open>checkXtal\<close>

text \<open>C's \<^verbatim>\<open>fmod\<close>: the remainder has the sign of the dividend.\<close>

definition c_fmod :: "real \<Rightarrow> real \<Rightarrow> real" where
  "c_fmod x y = x - y * of_int (trunc_toward_zero (x / y))"

definition tiny :: real where
  "tiny = 1 / 10 ^ 8"

text \<open>The volume that the range branch rescales to (the two lines computing \<^verbatim>\<open>newvol\<close>).\<close>

definition salvaged_volume :: "settings \<Rightarrow> real \<Rightarrow> real" where
  "salvaged_volume cfg V =
     (let newvol = \<bar>c_fmod V 1\<bar> * (vol_max cfg - vol_min cfg) + vol_min cfg
      in if \<bar>newvol\<bar> < tiny then (vol_max cfg - vol_min cfg) * (1 / 2) + vol_min cfg
         else newvol)"

text \<open>The block under \<^verbatim>\<open>// Check volume\<close>.\<close>

definition check_volume :: "cell_library \<Rightarrow> settings \<Rightarrow> xtal \<Rightarrow> xtal" where
  "check_volume lib cfg x =
     (if using_fixed_volume cfg
      then x\<lparr>geom := setVolume lib (vol_fixed cfg) (geom x)\<rparr>
      else if getVolume lib (geom x) < vol_min cfg \<or> getVolume lib (geom x) > vol_max cfg
      then x\<lparr>geom := setVolume lib (salvaged_volume cfg (getVolume lib (geom x))) (geom x)\<rparr>
      else x)"

text \<open>A pinned parameter (\<^verbatim>\<open>min == max\<close>) takes its value, any other stays 0.\<close>

definition pinned :: "real \<Rightarrow> real \<Rightarrow> real" where
  "pinned lo hi = (if lo = hi then lo else 0)"

definition unrealistic :: "cell_library \<Rightarrow> real \<Rightarrow> bool" where
  "unrealistic lib v = (is_nan_or_inf lib v \<or> \<bar>v\<bar> < tiny)"

definition out_of_bounds :: "real \<Rightarrow> real \<Rightarrow> real \<Rightarrow> real \<Rightarrow> bool" where
  "out_of_bounds fixed v lo hi = (fixed = 0 \<and> (v < lo \<or> v > hi))"

text \<open>
  Everything in \<^verbatim>\<open>checkXtal\<close> after the volume block: scaling to the pinned parameters,
  the test for unrealistic cell parameters, \<^verbatim>\<open>fixAngles\<close>, the lattice bounds and the
  interatomic distance.  The candidate is returned as the checks leave it, with the verdict.
\<close>

definition check_lattice :: "cell_library \<Rightarrow> settings \<Rightarrow> xtal \<Rightarrow> bool \<times> xtal" where
  "check_lattice lib cfg x =
     (let l = lim cfg;
          a = pinned (a_min l) (a_max l);
          b = pinned (b_min l) (b_max l);
          c = pinned (c_min l) (c_max l);
          alpha = pinned (alpha_min l) (alpha_max l);
          beta = pinned (beta_min l) (beta_max l);
          gamma = pinned (gamma_min l) (gamma_max l);
          x1 = x\<lparr>geom := rescaleCell lib a b c alpha beta gamma (geom x)\<rparr>;
          g1 = geom x1
      in if unrealistic lib (getA lib g1) \<or> unrealistic lib (getB lib g1)
            \<or> unrealistic lib (getC lib g1) \<or> unrealistic lib (getAlpha lib g1)
            \<or> unrealistic lib (getBeta lib g1) \<or> unrealistic lib (getGamma lib g1)
         then (False, x1)
         else
           let x2 = x1\<lparr>geom := fixAngles lib g1\<rparr>;
               g2 = geom x2
           in if out_of_bounds a (getA lib g2) (a_min l) (a_max l)
                 \<or> out_of_bounds b (getB lib g2) (b_min l) (b_max l)
                 \<or> out_of_bounds c (getC lib g2) (c_min l) (c_max l)
                 \<or> out_of_bounds alpha (getAlpha lib g2) (alpha_min l) (alpha_max l)
                 \<or> out_of_bounds beta (getBeta lib g2) (beta_min l) (beta_max l)
                 \<or> out_of_bounds gamma (getGamma lib g2) (gamma_min l) (gamma_max l)
              then (False, x2)
              else if using_shortestInteratomicDistance cfg
              then (case getShortestInteratomicDistance lib g2 of
                      Some distance \<Rightarrow>
                        if distance < shortestInteratomicDistance cfg then (False, x2)
                        else (True, x2)
                    | None \<Rightarrow> (True, x2))
              else (True, x2))"

text \<open>
  The remaining grounds on which the specification has \<^verbatim>\<open>check\<close> reject a candidate,
  written out for comparison with \<open>check_lattice\<close>: on the cell scaled to the pinned
  parameters, a lattice component that is NaN, infinite or below \<open>1e-8\<close> in absolute
  value; after \<^verbatim>\<open>fixAngles\<close>, a parameter that is not pinned and lies outside its bounds;
  a shortest interatomic distance below the configured minimum.  The candidate passes
  when none of them holds.
\<close>

definition within_unless_pinned :: "real \<Rightarrow> real \<Rightarrow> real \<Rightarrow> bool" where
  "within_unless_pinned v lo hi = (pinned lo hi = 0 \<longrightarrow> lo \<le> v \<and> v \<le> hi)"

definition remaining_checks_pass :: "cell_library \<Rightarrow> settings \<Rightarrow> xtal \<Rightarrow> bool" where
  "remaining_checks_pass lib cfg x =
     (let l = lim cfg;
          g1 = rescaleCell lib (pinned (a_min l) (a_max l)) (pinned (b_min l) (b_max l))
                 (pinned (c_min l) (c_max l)) (pinned (alpha_min l) (alpha_max l))
                 (pinned (beta_min l) (beta_max l)) (pinned (gamma_min l) (gamma_max l))
                 (geom x);
          g2 = fixAngles lib g1
      in list_all (\<lambda>v. \<not> is_nan_or_inf lib v \<and> tiny \<le> \<bar>v\<bar>)
           [getA lib g1, getB lib g1, getC lib g1, getAlpha lib g1, getBeta lib g1,
            getGamma lib g1]
         \<and> within_unless_pinned (getA lib g2) (a_min l) (a_max l)
         \<and> within_unless_pinned (getB lib g2) (b_min l) (b_max l)
         \<and> within_unless_pinned (getC lib g2) (c_min l) (c_max l)
         \<and> within_unless_pinned (getAlpha lib g2) (alpha_min l) (alpha_max l)
         \<and> within_unless_pinned (getBeta lib g2) (beta_min l) (beta_max l)
         \<and> within_unless_pinned (getGamma lib g2) (gamma_min l) (gamma_max l)
         \<and> (using_shortestInteratomicDistance cfg \<longrightarrow>
              (case getShortestInteratomicDistance lib g2 of
                 Some distance \<Rightarrow> shortestInteratomicDistance cfg \<le> distance
               | None \<Rightarrow> True)))"

text \<open>
  \<^verbatim>\<open>checkXtal\<close>.  The argument is a pointer: \<open>None\<close> is the null pointer.  The function
  changes the crystal it checks, so it returns the crystal with the verdict.
\<close>

definition checkXtal :: "cell_library \<Rightarrow> settings \<Rightarrow> xtal option \<Rightarrow> bool \<times> xtal option" where
  "checkXtal lib cfg p =
     (case p of
        None \<Rightarrow> (False, None)
      | Some x \<Rightarrow>
          if status x = Empty then (False, Some x)
          else let (ok, x') = check_lattice lib cfg (check_volume lib cfg x)
               in (ok, Some x'))"

subsection \<open>generateRandomXtal\<close>

text \<open>The inner loop of the population: \<open>q\<close> atoms of one element, stopping at the first
  atom that \<^verbatim>\<open>addAtomRandomly\<close> cannot place.\<close>

fun add_atoms ::
  "'r random_library \<Rightarrow> nat \<Rightarrow> real \<Rightarrow> nat \<Rightarrow> geom \<Rightarrow> 'r \<Rightarrow> geom option \<times> 'r" where
  "add_atoms rl atomicNum IAD 0 g r = (Some g, r)"
| "add_atoms rl atomicNum IAD (Suc q) g r =
     (let ((ok, g'), r') = addAtomRandomly rl atomicNum IAD g r
      in if ok then add_atoms rl atomicNum IAD q g' r' else (None, r'))"

definition comp_value :: "(nat \<times> nat) list \<Rightarrow> nat \<Rightarrow> nat" where
  "comp_value cmp atomicNum = (case map_of cmp atomicNum of Some q \<Rightarrow> q | None \<Rightarrow> 0)"

fun populate ::
  "'r random_library \<Rightarrow> settings \<Rightarrow> nat list \<Rightarrow> geom \<Rightarrow> 'r \<Rightarrow> geom option \<times> 'r" where
  "populate rl cfg [] g r = (Some g, r)"
| "populate rl cfg (atomicNum # atomicNums) g r =
     (let IAD = (if using_shortestInteratomicDistance cfg
                 then shortestInteratomicDistance cfg else - 1)
      in case add_atoms rl atomicNum IAD (comp_value (comp cfg) atomicNum) g r of
           (None, r') \<Rightarrow> (None, r')
         | (Some g', r') \<Rightarrow> populate rl cfg atomicNums g' r')"

text \<open>\<^verbatim>\<open>generateRandomXtal\<close>; \<open>None\<close> is the null pointer that the source returns when an
  atom cannot be placed.\<close>

definition generateRandomXtal ::
  "'r random_library \<Rightarrow> cell_library \<Rightarrow> settings \<Rightarrow> 32 word \<Rightarrow> 32 word \<Rightarrow> 'r
     \<Rightarrow> xtal option \<times> 'r" where
  "generateRandomXtal rl lib cfg gen ident r0 =
     (let l = lim cfg;
          r = INIT_RANDOM_GENERATOR rl r0;
          (u1, r) = RANDDOUBLE rl r;
          a = u1 * (a_max l - a_min l) + a_min l;
          (u2, r) = RANDDOUBLE rl r;
          b = u2 * (b_max l - b_min l) + b_min l;
          (u3, r) = RANDDOUBLE rl r;
          c = u3 * (c_max l - c_min l) + c_min l;
          (u4, r) = RANDDOUBLE rl r;
          alpha = u4 * (alpha_max l - alpha_min l) + alpha_min l;
          (u5, r) = RANDDOUBLE rl r;
          beta = u5 * (beta_max l - beta_min l) + beta_min l;
          (u6, r) = RANDDOUBLE rl r;
          gamma = u6 * (gamma_max l - gamma_min l) + gamma_min l;
          x = (newXtal rl a b c alpha beta gamma)\<lparr>status := Empty\<rparr>;
          x = (if using_fixed_volume cfg
               then x\<lparr>geom := setVolume lib (vol_fixed cfg) (geom x)\<rparr> else x)
      in case populate rl cfg (map fst (comp cfg)) (geom x) r of
           (None, r') \<Rightarrow> (None, r')
         | (Some g, r') \<Rightarrow>
             (Some (x\<lparr>geom := g, generation := gen, id_number := ident,
                      parents := ''Randomly generated'',
                      status := WaitingForOptimization\<rparr>), r'))"

text \<open>
  The loop \<^verbatim>\<open>while (!checkXtal(xtal)) xtal = generateRandomXtal(gen, id);\<close> that
  \<^verbatim>\<open>replaceWithRandom\<close> and \<^verbatim>\<open>generateNewStructure_\<close> share.  It starts from the null
  pointer, so the first test fails.  Nothing bounds the number of rounds in the source;
  the model counts them down from \<open>fuel\<close> and answers \<open>None\<close> when they are used up.
\<close>

fun random_until_valid ::
  "nat \<Rightarrow> 'r random_library \<Rightarrow> cell_library \<Rightarrow> settings \<Rightarrow> 32 word \<Rightarrow> 32 word \<Rightarrow> 'r
     \<Rightarrow> (xtal \<times> 'r) option" where
  "random_until_valid 0 rl lib cfg gen ident r = None"
| "random_until_valid (Suc fuel) rl lib cfg gen ident r =
     (let (p, r') = generateRandomXtal rl lib cfg gen ident r
      in case checkXtal lib cfg p of
           (True, Some x) \<Rightarrow> Some (x, r')
         | _ \<Rightarrow> random_until_valid fuel rl lib cfg gen ident r')"

text \<open>One round of that loop from the generator state \<open>r\<close>: the candidate as
  \<^verbatim>\<open>checkXtal\<close> leaves it, with the generator state, when the round ends the loop; and
  the generator state after \<open>k\<close> rounds.\<close>

definition round_result ::
  "'r random_library \<Rightarrow> cell_library \<Rightarrow> settings \<Rightarrow> 32 word \<Rightarrow> 32 word \<Rightarrow> 'r
     \<Rightarrow> (xtal \<times> 'r) option" where
  "round_result rl lib cfg gen ident r =
     (let (p, r') = generateRandomXtal rl lib cfg gen ident r
      in case checkXtal lib cfg p of
           (True, Some x) \<Rightarrow> Some (x, r')
         | _ \<Rightarrow> None)"

fun rng_after_rounds ::
  "nat \<Rightarrow> 'r random_library \<Rightarrow> cell_library \<Rightarrow> settings \<Rightarrow> 32 word \<Rightarrow> 32 word \<Rightarrow> 'r \<Rightarrow> 'r" where
  "rng_after_rounds 0 rl lib cfg gen ident r = r"
| "rng_after_rounds (Suc k) rl lib cfg gen ident r =
     rng_after_rounds k rl lib cfg gen ident (snd (generateRandomXtal rl lib cfg gen ident r))"

subsection \<open>replaceWithRandom\<close>

text \<open>
  Setters of \<^verbatim>\<open>Structure\<close> whose bodies are outside the files at hand.
  Modelled from the spec: \<^verbatim>\<open>resetEnergy\<close>, \<^verbatim>\<open>resetEnthalpy\<close> and \<^verbatim>\<open>resetFailCount\<close>
  (``reset energies/enthalpy/PV'', ``\<open>fail_count \<leftarrow> 0\<close>''), and \<^verbatim>\<open>clear\<close> with the new unit
  cell (``clear its atoms and cell'').
\<close>

definition resetEnergy :: "xtal \<Rightarrow> xtal" where
  "resetEnergy x = x\<lparr>energy := 0\<rparr>"

definition resetEnthalpy :: "xtal \<Rightarrow> xtal" where
  "resetEnthalpy x = x\<lparr>enthalpy := 0, has_enthalpy := False\<rparr>"

definition resetFailCount :: "xtal \<Rightarrow> xtal" where
  "resetFailCount x = x\<lparr>fail_count := 0\<rparr>"

definition zero_cell :: "vec3 \<times> vec3 \<times> vec3" where
  "zero_cell = ((0, 0, 0), (0, 0, 0), (0, 0, 0))"

definition clear_geom :: "geom \<Rightarrow> geom" where
  "clear_geom g = g\<lparr>atoms := [], cell_matrix := zero_cell\<rparr>"

text \<open>The loop that copies the atoms of the random crystal: a new atom for each, with its
  position and atomic number.\<close>

fun copy_atoms :: "atom list \<Rightarrow> geom \<Rightarrow> geom" where
  "copy_atoms [] g = g"
| "copy_atoms (atom2 # rest) g =
     copy_atoms rest
       (g\<lparr>atoms := atoms g @ [\<lparr>atomicNumber = atomicNumber atom2, pos = pos atom2\<rparr>]\<rparr>)"

definition random_parents :: "string \<Rightarrow> string" where
  "random_parents reason =
     (if reason = [] then ''Randomly generated''
      else ''Randomly generated'' @ '' ('' @ reason @ '')'')"

text \<open>The body of \<^verbatim>\<open>replaceWithRandom\<close> below the loop, from the valid random crystal
  \<open>x\<close>.\<close>

definition copy_over :: "cell_library \<Rightarrow> settings \<Rightarrow> xtal \<Rightarrow> string \<Rightarrow> xtal \<Rightarrow> xtal" where
  "copy_over lib cfg x reason oldXtal =
     (let old = oldXtal\<lparr>geom := clear_geom (geom oldXtal)\<rparr>;
          old = old\<lparr>geom := (geom old)\<lparr>cell_matrix := cell_matrix (geom x)\<rparr>\<rparr>;
          old = resetEnergy old;
          old = resetEnthalpy old;
          old = old\<lparr>PV := 0\<rparr>;
          old = old\<lparr>current_step := 1\<rparr>;
          old = old\<lparr>parents := random_parents reason\<rparr>;
          old = old\<lparr>geom := copy_atoms (atoms (geom x)) (geom old)\<rparr>;
          old = old\<lparr>spacegroup := findSpaceGroup lib (tol_spg cfg) (geom old)\<rparr>
      in resetFailCount old)"

definition replaceWithRandom ::
  "nat \<Rightarrow> 'r random_library \<Rightarrow> cell_library \<Rightarrow> settings \<Rightarrow> xtal \<Rightarrow> string \<Rightarrow> 'r
     \<Rightarrow> (xtal \<times> 'r) option" where
  "replaceWithRandom fuel rl lib cfg oldXtal reason r =
     (case random_until_valid fuel rl lib cfg 0 0 r of
        None \<Rightarrow> None
      | Some (x, r') \<Rightarrow> Some (copy_over lib cfg x reason oldXtal, r'))"

section \<open>The engine\<close>

text \<open>
  Work handed to \<^verbatim>\<open>QtConcurrent::run\<close> waits in the global thread pool until a thread
  takes it.  The engine's state lists the tasks that have been handed over and have
  not finished yet.
\<close>

datatype task = CheckForDuplicatesTask | ResetDuplicatesTask | GenerateNewStructureTask

record engine =
  tracker :: "xtal list"
  job_start_tracker :: "xtal list"
  isStarting :: bool
  readOnly :: bool
  scheduled :: "task list"
  log_error :: "string list"
  log_warning :: "string list"
  filePath :: string
  rempath :: string
  directories :: "string list"
  mkpath_succeeds :: "string \<Rightarrow> bool"

definition error :: "string \<Rightarrow> engine \<Rightarrow> engine" where
  "error msg e = e\<lparr>log_error := log_error e @ [msg]\<rparr>"

definition warning :: "string \<Rightarrow> engine \<Rightarrow> engine" where
  "warning msg e = e\<lparr>log_warning := log_warning e @ [msg]\<rparr>"

subsection \<open>Scheduling the duplicate scan\<close>

text \<open>The slot \<^verbatim>\<open>checkForDuplicates\<close>.\<close>

definition checkForDuplicates :: "engine \<Rightarrow> engine" where
  "checkForDuplicates e =
     (if isStarting e then e
      else e\<lparr>scheduled := scheduled e @ [CheckForDuplicatesTask]\<rparr>)"

text \<open>
  Modelled from the spec: \<^verbatim>\<open>Tracker::append\<close>, declared in tracker.h and defined outside
  the files at hand, ``publishes a new candidate; emits \<^verbatim>\<open>new_structure_added(c)\<close>''.
  The constructor of \<^verbatim>\<open>XtalOpt\<close> connects that signal to the slot
  \<^verbatim>\<open>checkForDuplicates\<close>, so the slot runs for every candidate appended.
\<close>

definition tracker_append :: "xtal \<Rightarrow> engine \<Rightarrow> engine" where
  "tracker_append s e = checkForDuplicates (e\<lparr>tracker := tracker e @ [s]\<rparr>)"

text \<open>A thread of the pool takes the oldest task; when the task has run it is gone from
  the list.  \<open>run\<close> is what the task does to the engine.\<close>

definition finish_first_task :: "(task \<Rightarrow> engine \<Rightarrow> engine) \<Rightarrow> engine \<Rightarrow> engine" where
  "finish_first_task run e =
     (case scheduled e of
        [] \<Rightarrow> e
      | t # ts \<Rightarrow> run t (e\<lparr>scheduled := ts\<rparr>))"

definition scans_pending :: "engine \<Rightarrow> nat" where
  "scans_pending e = length (filter (\<lambda>t. t = CheckForDuplicatesTask) (scheduled e))"

subsection \<open>initializeAndAddXtal\<close>

text \<open>Decimal digits of a natural number, as \<^verbatim>\<open>QString::arg\<close> and \<^verbatim>\<open>sprintf\<close> print
  them.\<close>

definition digit_char :: "nat \<Rightarrow> char" where
  "digit_char d = ''0123456789'' ! d"

fun string_of_nat :: "nat \<Rightarrow> string" where
  "string_of_nat n =
     (if n < 10 then [digit_char n]
      else string_of_nat (n div 10) @ [digit_char (n mod 10)])"

declare string_of_nat.simps [simp del]

definition zero_pad :: "nat \<Rightarrow> string \<Rightarrow> string" where
  "zero_pad width s = replicate (width - length s) CHR ''0'' @ s"

text \<open>\<^verbatim>\<open>sprintf("%05d", v)\<close> on a \<^verbatim>\<open>uint\<close>: the bits are read as a signed
  \<^verbatim>\<open>int\<close>, the sign counts for the width.\<close>

definition sprintf_05d :: "32 word \<Rightarrow> string" where
  "sprintf_05d v =
     (if 0 \<le> sint v then zero_pad 5 (string_of_nat (nat (sint v)))
      else CHR ''-'' # zero_pad 4 (string_of_nat (nat (- sint v))))"

text \<open>The loop that finds the next free id of a generation.\<close>

fun next_id :: "32 word \<Rightarrow> xtal list \<Rightarrow> 32 word \<Rightarrow> 32 word" where
  "next_id gen [] ident = ident"
| "next_id gen (structure # rest) ident =
     next_id gen rest
       (if generation structure = gen \<and> ident \<le> id_number structure
        then id_number structure + 1 else ident)"

text \<open>
  Modelled from the spec: \<^verbatim>\<open>QueueManager::lockForNaming\<close> and \<^verbatim>\<open>unlockForNaming\<close>, which
  are outside the files at hand.  The first hands out the candidates of the store, the
  second publishes the new candidate to the store (``publish to the store and release
  naming mutex''), its index being the next ordinal in insertion order.
\<close>

definition lockForNaming :: "engine \<Rightarrow> xtal list" where
  "lockForNaming e = tracker e"

definition unlockForNaming :: "xtal \<Rightarrow> engine \<Rightarrow> engine" where
  "unlockForNaming x e = tracker_append (x\<lparr>index := int (length (tracker e))\<rparr>) e"

definition initializeAndAddXtal ::
  "cell_library \<Rightarrow> settings \<Rightarrow> xtal \<Rightarrow> 32 word \<Rightarrow> string \<Rightarrow> engine \<Rightarrow> engine" where
  "initializeAndAddXtal lib cfg xtal0 gen prnts e =
     (let allStructures = lockForNaming e;
          ident = next_id gen allStructures 1;
          x = xtal0\<lparr>id_number := ident, generation := gen, parents := prnts\<rparr>;
          id_s = sprintf_05d (id_number x);
          gen_s = sprintf_05d (generation x);
          locpath_s = filePath e @ ''/'' @ gen_s @ ''x'' @ id_s @ ''/'';
          rempath_s = rempath e @ ''/'' @ gen_s @ ''x'' @ id_s @ ''/'';
          e1 = (if locpath_s \<in> set (directories e) then e
                else if mkpath_succeeds e locpath_s
                then e\<lparr>directories := directories e @ [locpath_s]\<rparr>
                else error (''XtalOpt::initializeAndAddXtal: Cannot write to path: ''
                              @ locpath_s @ '' (path creation failure)'') e);
          x = x\<lparr>file_name := locpath_s, rempath_of := rempath_s\<rparr>;
          x = x\<lparr>current_step := 1\<rparr>;
          x = x\<lparr>spacegroup := findSpaceGroup lib (tol_spg cfg) (geom x)\<rparr>
      in unlockForNaming x e1)"

subsection \<open>generateNewStructure\<close>

text \<open>
  The genetic operators, the ranking of the parents and the formatting of numbers live
  outside the files at hand (\<^verbatim>\<open>XtalOptGenetic\<close>, \<^verbatim>\<open>Structure::sortByEnthalpy\<close>,
  \<^verbatim>\<open>getProbabilityList\<close>, \<^verbatim>\<open>QString::arg\<close>).  Each operator returns the child (a null
  pointer when it fails) with the numbers it reports.
\<close>

record 'r genetic_library =
  sortByEnthalpy :: "xtal list \<Rightarrow> xtal list"
  getProbabilityList :: "xtal list \<Rightarrow> real list"
  crossover :: "xtal \<Rightarrow> xtal \<Rightarrow> nat \<Rightarrow> 'r \<Rightarrow> (xtal option \<times> real) \<times> 'r"
  stripple :: "xtal \<Rightarrow> operator_settings \<Rightarrow> 'r \<Rightarrow> (xtal option \<times> real \<times> real) \<times> 'r"
  permustrain :: "xtal \<Rightarrow> real \<Rightarrow> nat \<Rightarrow> 'r \<Rightarrow> (xtal option \<times> real) \<times> 'r"
  number_f :: "real \<Rightarrow> nat \<Rightarrow> string"

datatype Operators = OP_Crossover | OP_Stripple | OP_Permustrain

datatype failure = OutOfFuel | IndexOutOfRange

text \<open>Modelled from the spec: \<^verbatim>\<open>QueueManager::getAllOptimizedStructures\<close>, the candidates
  of the store whose status is \<^verbatim>\<open>Optimized\<close>.\<close>

definition getAllOptimizedStructures :: "engine \<Rightarrow> xtal list" where
  "getAllOptimizedStructures e = filter (\<lambda>s. status s = Optimized) (tracker e)"

text \<open>The loop \<^verbatim>\<open>for (ind = 0; ind < probs.size(); ind++) if (r < probs.at(ind)) break;\<close>\<close>

fun select_index :: "real \<Rightarrow> real list \<Rightarrow> nat" where
  "select_index r [] = 0"
| "select_index r (p # ps) = (if r < p then 0 else Suc (select_index r ps))"

text \<open>\<^verbatim>\<open>xtals.at(ind)\<close>: an index past the end stops the program.\<close>

definition at_index :: "'a list \<Rightarrow> nat \<Rightarrow> failure + 'a" where
  "at_index xs i = (if i < length xs then Inr (xs ! i) else Inl IndexOutOfRange)"

definition GxI :: "32 word \<Rightarrow> 32 word \<Rightarrow> string" where
  "GxI gen ident = string_of_nat (unat gen) @ ''x'' @ string_of_nat (unat ident)"

definition choose_operator :: "operator_settings \<Rightarrow> real \<Rightarrow> Operators" where
  "choose_operator ops r =
     (if r < real (p_cross ops) / 100 then OP_Crossover
      else if r < real (p_cross ops + p_strip ops) / 100 then OP_Stripple
      else OP_Permustrain)"

text \<open>One pass through the \<^verbatim>\<open>switch\<close>: the child, its generation and its
  \<^verbatim>\<open>parents\<close> string.\<close>

definition apply_operator ::
  "'r random_library \<Rightarrow> 'r genetic_library \<Rightarrow> operator_settings \<Rightarrow> Operators
     \<Rightarrow> real list \<Rightarrow> xtal list \<Rightarrow> 'r
     \<Rightarrow> failure + ((xtal option \<times> 32 word \<times> string) \<times> 'r)" where
  "apply_operator rl gl ops op probs xtals r =
     (case op of
        OP_Crossover \<Rightarrow>
          (let (r1, r) = RANDDOUBLE rl r;
               (r2, r) = RANDDOUBLE rl r
           in case at_index xtals (select_index r1 probs) of
                Inl f \<Rightarrow> Inl f
              | Inr xtal1 \<Rightarrow>
                  (case at_index xtals (select_index r2 probs) of
                     Inl f \<Rightarrow> Inl f
                   | Inr xtal2 \<Rightarrow>
                       (let ((child, percent1), r) =
                              crossover gl xtal1 xtal2 (cross_minimumContribution ops) r;
                            gen1 = generation xtal1;
                            gen2 = generation xtal2;
                            gen = (if gen2 \<le> gen1 then gen1 + 1 else gen2 + 1);
                            prnts = ''Crossover: '' @ GxI gen1 (id_number xtal1)
                              @ '' ('' @ number_f gl percent1 0 @ ''%) + ''
                              @ GxI gen2 (id_number xtal2)
                              @ '' ('' @ number_f gl (100 - percent1) 0 @ ''%)''
                        in Inr ((child, gen, prnts), r))))
      | OP_Stripple \<Rightarrow>
          (let (r1, r) = RANDDOUBLE rl r
           in case at_index xtals (select_index r1 probs) of
                Inl f \<Rightarrow> Inl f
              | Inr xtal1 \<Rightarrow>
                  (let ((child, stdev, amplitude), r) = stripple gl xtal1 ops r;
                       gen1 = generation xtal1;
                       prnts = ''Stripple: '' @ GxI gen1 (id_number xtal1)
                         @ '' stdev='' @ number_f gl stdev 5
                         @ '' amp='' @ number_f gl amplitude 5
                         @ '' waves='' @ string_of_nat (strip_per1 ops)
                         @ '','' @ string_of_nat (strip_per2 ops)
                   in Inr ((child, gen1 + 1, prnts), r)))
      | OP_Permustrain \<Rightarrow>
          (let (r1, r) = RANDDOUBLE rl r
           in case at_index xtals (select_index r1 probs) of
                Inl f \<Rightarrow> Inl f
              | Inr xtal1 \<Rightarrow>
                  (let ((child, stdev), r) =
                         permustrain gl xtal1 (perm_strainStdev_max ops) (perm_ex ops) r;
                       gen1 = generation xtal1;
                       prnts = ''Permustrain: '' @ GxI gen1 (id_number xtal1)
                         @ '' stdev='' @ number_f gl stdev 5
                         @ '' exch='' @ string_of_nat (perm_ex ops)
                   in Inr ((child, gen1 + 1, prnts), r))))"

text \<open>
  The inner loop \<^verbatim>\<open>while (attemptCount < 1000 && !checkXtal(xtal))\<close>, counted by the
  attempts that remain.  With none left the crystal is not checked; the flag says that
  the warning is due.
\<close>

fun attempts ::
  "nat \<Rightarrow> 'r random_library \<Rightarrow> 'r genetic_library \<Rightarrow> cell_library \<Rightarrow> settings
     \<Rightarrow> operator_settings \<Rightarrow> Operators \<Rightarrow> real list \<Rightarrow> xtal list
     \<Rightarrow> xtal option \<Rightarrow> 32 word \<Rightarrow> string \<Rightarrow> 'r
     \<Rightarrow> failure + ((bool \<times> xtal option \<times> 32 word \<times> string) \<times> 'r)" where
  "attempts 0 rl gl lib cfg ops op probs xtals p gen prnts r = Inr ((True, p, gen, prnts), r)"
| "attempts (Suc left) rl gl lib cfg ops op probs xtals p gen prnts r =
     (case checkXtal lib cfg p of
        (True, p') \<Rightarrow> Inr ((False, p', gen, prnts), r)
      | (False, _) \<Rightarrow>
          (case apply_operator rl gl ops op probs xtals r of
             Inl f \<Rightarrow> Inl f
           | Inr ((child, gen', prnts'), r') \<Rightarrow>
               attempts left rl gl lib cfg ops op probs xtals child gen' prnts' r'))"

definition operator_name :: "Operators \<Rightarrow> string" where
  "operator_name op =
     (case op of OP_Crossover \<Rightarrow> ''crossover'' | OP_Stripple \<Rightarrow> ''stripple''
      | OP_Permustrain \<Rightarrow> ''permustrain'')"

text \<open>The outer loop \<^verbatim>\<open>while (!checkXtal(xtal))\<close> of the genetic branch; the source does not
  bound it, the model counts its rounds down from \<open>fuel\<close>.\<close>

fun breed ::
  "nat \<Rightarrow> 'r random_library \<Rightarrow> 'r genetic_library \<Rightarrow> cell_library \<Rightarrow> settings
     \<Rightarrow> operator_settings \<Rightarrow> real list \<Rightarrow> xtal list
     \<Rightarrow> xtal option \<Rightarrow> 32 word \<Rightarrow> string \<Rightarrow> string list \<Rightarrow> 'r
     \<Rightarrow> failure + ((xtal \<times> 32 word \<times> string \<times> string list) \<times> 'r)" where
  "breed 0 rl gl lib cfg ops probs xtals p gen prnts warnings r = Inl OutOfFuel"
| "breed (Suc fuel) rl gl lib cfg ops probs xtals p gen prnts warnings r =
     (case checkXtal lib cfg p of
        (True, Some x) \<Rightarrow> Inr ((x, gen, prnts, warnings), r)
      | _ \<Rightarrow>
          (let (u, r1) = RANDDOUBLE rl r;
               op = choose_operator ops u
           in case attempts 1000 rl gl lib cfg ops op probs xtals None gen prnts r1 of
                Inl f \<Rightarrow> Inl f
              | Inr ((exhausted, p2, gen2, prnts2), r2) \<Rightarrow>
                  breed fuel rl gl lib cfg ops probs xtals p2 gen2 prnts2
                    (if exhausted
                     then warnings @ [''Unable to perform operation '' @ operator_name op
                            @ '' after 1000 tries. Reselecting operator...'']
                     else warnings)
                    r2))"

text \<open>\<^verbatim>\<open>generateNewStructure_\<close>, the worker that \<^verbatim>\<open>generateNewStructure\<close> hands to the
  thread pool.\<close>

definition generateNewStructure_impl ::
  "nat \<Rightarrow> 'r random_library \<Rightarrow> 'r genetic_library \<Rightarrow> cell_library \<Rightarrow> settings
     \<Rightarrow> operator_settings \<Rightarrow> engine \<Rightarrow> 'r \<Rightarrow> failure + (engine \<times> 'r)" where
  "generateNewStructure_impl fuel rl gl lib cfg ops e r0 =
     (let r = INIT_RANDOM_GENERATOR rl r0;
          structures = getAllOptimizedStructures e
      in if length structures < 3
         then (case random_until_valid fuel rl lib cfg 1 0 r of
                 None \<Rightarrow> Inl OutOfFuel
               | Some (x, r') \<Rightarrow> Inr (initializeAndAddXtal lib cfg x 1 (parents x) e, r'))
         else
           let structures = sortByEnthalpy gl structures;
               structures = take (unat (popSize cfg + 1)) structures;
               probs = getProbabilityList gl structures;
               xtals = structures
           in case breed fuel rl gl lib cfg ops probs xtals None 0 [] [] r of
                Inl f \<Rightarrow> Inl f
              | Inr ((x, gen, prnts, warnings), r') \<Rightarrow>
                  Inr (initializeAndAddXtal lib cfg x gen prnts
                         (e\<lparr>log_warning := log_warning e @ warnings\<rparr>), r'))"

subsection \<open>The duplicate scan\<close>

text \<open>
  Modelled from the spec: \<^verbatim>\<open>Xtal::getFingerprint\<close>, which is outside the files at hand.
  The fingerprint is ``\<open>{spacegroup: uint, enthalpy: float, volume: float}\<close>''; the scan
  reads these three keys of the hash.
\<close>

record fingerprint =
  fp_spacegroup :: nat
  fp_enthalpy :: real
  fp_volume :: real

definition getFingerprint :: "cell_library \<Rightarrow> xtal \<Rightarrow> fingerprint" where
  "getFingerprint lib x =
     \<lparr>fp_spacegroup = spacegroup x, fp_enthalpy = enthalpy x,
      fp_volume = getVolume lib (geom x)\<rparr>"

text \<open>The keys of the hash \<^verbatim>\<open>limits\<close>, the value of a fingerprint under a key and the
  limit stored under it.\<close>

datatype limit_key = Key_enthalpy | Key_volume

fun fp_value :: "fingerprint \<Rightarrow> limit_key \<Rightarrow> real" where
  "fp_value fp Key_enthalpy = fp_enthalpy fp"
| "fp_value fp Key_volume = fp_volume fp"

fun limits_value :: "settings \<Rightarrow> limit_key \<Rightarrow> real" where
  "limits_value cfg Key_enthalpy = tol_enthalpy cfg"
| "limits_value cfg Key_volume = tol_volume cfg"

text \<open>The loop over the keys under \<^verbatim>\<open>// Check limits\<close>: \<^verbatim>\<open>match\<close> stays true when no
  difference exceeds its limit.\<close>

fun check_limits :: "settings \<Rightarrow> limit_key list \<Rightarrow> fingerprint \<Rightarrow> fingerprint \<Rightarrow> bool" where
  "check_limits cfg [] fp_i fp_j = True"
| "check_limits cfg (key # keys) fp_i fp_j =
     (if \<bar>fp_value fp_i key - fp_value fp_j key\<bar> > limits_value cfg key then False
      else check_limits cfg keys fp_i fp_j)"

definition limit_keys :: "limit_key list" where
  "limit_keys = [Key_enthalpy, Key_volume]"

text \<open>What the scan copies from the store before it compares: the fingerprints and the
  states.\<close>

record snapshot =
  fps :: "fingerprint list"
  states :: "state list"

definition take_snapshot :: "cell_library \<Rightarrow> xtal list \<Rightarrow> snapshot" where
  "take_snapshot lib structures =
     \<lparr>fps = map (getFingerprint lib) structures, states = map status structures\<rparr>"

text \<open>Marking: the candidate at position \<open>d\<close> of the store becomes a duplicate of the one
  at position \<open>k\<close>.\<close>

definition mark_duplicate :: "nat \<Rightarrow> nat \<Rightarrow> xtal list \<Rightarrow> xtal list" where
  "mark_duplicate d k structures =
     structures[d := (structures ! d)
        \<lparr>status := Duplicate,
         duplicate_string :=
           GxI (generation (structures ! k)) (id_number (structures ! k))\<rparr>]"

text \<open>The tests on a pair that end in \<^verbatim>\<open>continue\<close>, given that \<open>i\<close> has passed its own.\<close>

definition pair_matches :: "settings \<Rightarrow> snapshot \<Rightarrow> nat \<Rightarrow> nat \<Rightarrow> bool" where
  "pair_matches cfg snap i j =
     (if states snap ! j \<noteq> Optimized then False
      else if fp_spacegroup (fps snap ! j) = 0 then False
      else if fp_spacegroup (fps snap ! i) \<noteq> fp_spacegroup (fps snap ! j) then False
      else check_limits cfg limit_keys (fps snap ! i) (fps snap ! j))"

text \<open>The inner loop, over the values of \<open>j\<close> that remain.  When \<open>i\<close> is marked the loop
  is left (\<^verbatim>\<open>break\<close>).\<close>

fun scan_inner :: "settings \<Rightarrow> snapshot \<Rightarrow> nat \<Rightarrow> nat list \<Rightarrow> xtal list \<Rightarrow> xtal list" where
  "scan_inner cfg snap i [] structures = structures"
| "scan_inner cfg snap i (j # js) structures =
     (if \<not> pair_matches cfg snap i j then scan_inner cfg snap i js structures
      else if fp_enthalpy (fps snap ! i) > fp_enthalpy (fps snap ! j)
      then mark_duplicate i j structures
      else scan_inner cfg snap i js (mark_duplicate j i structures))"

definition skipped :: "snapshot \<Rightarrow> nat \<Rightarrow> bool" where
  "skipped snap i =
     (states snap ! i \<noteq> Optimized \<or> fp_spacegroup (fps snap ! i) = 0)"

fun scan_outer :: "settings \<Rightarrow> snapshot \<Rightarrow> nat list \<Rightarrow> xtal list \<Rightarrow> xtal list" where
  "scan_outer cfg snap [] structures = structures"
| "scan_outer cfg snap (i # is) structures =
     scan_outer cfg snap is
       (if skipped snap i then structures
        else scan_inner cfg snap i [i + 1 ..< length (fps snap)] structures)"

definition scan_for_duplicates :: "cell_library \<Rightarrow> settings \<Rightarrow> xtal list \<Rightarrow> xtal list" where
  "scan_for_duplicates lib cfg structures =
     (let snap = take_snapshot lib structures
      in scan_outer cfg snap [0 ..< length (fps snap)] structures)"

text \<open>\<^verbatim>\<open>checkForDuplicates_\<close>, the worker that \<^verbatim>\<open>checkForDuplicates\<close> hands to the thread
  pool.\<close>

definition checkForDuplicates_impl :: "cell_library \<Rightarrow> settings \<Rightarrow> engine \<Rightarrow> engine" where
  "checkForDuplicates_impl lib cfg e = e\<lparr>tracker := scan_for_duplicates lib cfg (tracker e)\<rparr>"

text \<open>
  The markings of a scan in the order in which it makes them, as pairs (marked position,
  position it is a duplicate of).  They depend on the snapshot alone.
\<close>

fun inner_marks :: "settings \<Rightarrow> snapshot \<Rightarrow> nat \<Rightarrow> nat list \<Rightarrow> (nat \<times> nat) list" where
  "inner_marks cfg snap i [] = []"
| "inner_marks cfg snap i (j # js) =
     (if \<not> pair_matches cfg snap i j then inner_marks cfg snap i js
      else if fp_enthalpy (fps snap ! i) > fp_enthalpy (fps snap ! j) then [(i, j)]
      else (j, i) # inner_marks cfg snap i js)"

fun outer_marks :: "settings \<Rightarrow> snapshot \<Rightarrow> nat list \<Rightarrow> (nat \<times> nat) list" where
  "outer_marks cfg snap [] = []"
| "outer_marks cfg snap (i # is) =
     (if skipped snap i then []
      else inner_marks cfg snap i [i + 1 ..< length (fps snap)])
     @ outer_marks cfg snap is"

definition apply_marks :: "(nat \<times> nat) list \<Rightarrow> xtal list \<Rightarrow> xtal list" where
  "apply_marks ms structures = foldl (\<lambda>s (d, k). mark_duplicate d k s) structures ms"

definition scan_marks :: "cell_library \<Rightarrow> settings \<Rightarrow> xtal list \<Rightarrow> (nat \<times> nat) list" where
  "scan_marks lib cfg structures =
     (let snap = take_snapshot lib structures
      in outer_marks cfg snap [0 ..< length (fps snap)])"

text \<open>
  The pairs \<open>i < j\<close> that the scan finds matching: both optimized with the same nonzero
  space group in the snapshot, enthalpy and volume within the tolerances, and \<open>i\<close> not
  marked by an earlier comparison of the same round (which would have left the loop).
\<close>

definition matching :: "settings \<Rightarrow> snapshot \<Rightarrow> nat \<Rightarrow> nat \<Rightarrow> bool" where
  "matching cfg snap i j =
     (states snap ! i = Optimized \<and> states snap ! j = Optimized
      \<and> fp_spacegroup (fps snap ! i) \<noteq> 0 \<and> fp_spacegroup (fps snap ! j) \<noteq> 0
      \<and> fp_spacegroup (fps snap ! i) = fp_spacegroup (fps snap ! j)
      \<and> \<bar>fp_enthalpy (fps snap ! i) - fp_enthalpy (fps snap ! j)\<bar> \<le> tol_enthalpy cfg
      \<and> \<bar>fp_volume (fps snap ! i) - fp_volume (fps snap ! j)\<bar> \<le> tol_volume cfg)"

definition found_matching :: "settings \<Rightarrow> snapshot \<Rightarrow> nat \<Rightarrow> nat \<Rightarrow> bool" where
  "found_matching cfg snap i j =
     (i < j \<and> j < length (fps snap) \<and> matching cfg snap i j
      \<and> (\<forall>j' \<in> {i + 1 ..< j}. matching cfg snap i j'
            \<longrightarrow> \<not> fp_enthalpy (fps snap ! i) > fp_enthalpy (fps snap ! j')))"

text \<open>The member of a matching pair \<open>i < j\<close> with the higher enthalpy, \<open>j\<close> when the
  enthalpies tie, and the other member.\<close>

definition higher :: "snapshot \<Rightarrow> nat \<Rightarrow> nat \<Rightarrow> nat" where
  "higher snap i j = (if fp_enthalpy (fps snap ! i) > fp_enthalpy (fps snap ! j) then i else j)"

definition lower :: "snapshot \<Rightarrow> nat \<Rightarrow> nat \<Rightarrow> nat" where
  "lower snap i j = (if fp_enthalpy (fps snap ! i) > fp_enthalpy (fps snap ! j) then j else i)"

section \<open>Loading a session\<close>

text \<open>
  The values of a \<^verbatim>\<open>QSettings\<close> file and \<^verbatim>\<open>QVariant::toBool\<close>: a boolean is itself, a
  number is true when it is not 0, a string is true unless its lower-case content is
  empty, \<^verbatim>\<open>0\<close> or \<^verbatim>\<open>false\<close>.
\<close>

datatype qvariant = QVBool bool | QVInt int | QVString string

definition lower_char :: "char \<Rightarrow> char" where
  "lower_char c =
     (if c \<in> set ''ABCDEFGHIJKLMNOPQRSTUVWXYZ'' then char_of (of_char c + (32 :: nat)) else c)"

fun toBool :: "qvariant \<Rightarrow> bool" where
  "toBool (QVBool b) = b"
| "toBool (QVInt n) = (n \<noteq> 0)"
| "toBool (QVString s) =
     (let l = map lower_char s in \<not> (l = [] \<or> l = ''0'' \<or> l = ''false''))"

definition settings_value :: "(string \<Rightarrow> qvariant option) \<Rightarrow> string \<Rightarrow> qvariant \<Rightarrow> qvariant" where
  "settings_value stored key dflt = (case stored key of None \<Rightarrow> dflt | Some v \<Rightarrow> v)"

text \<open>
  One call of \<^verbatim>\<open>makeConnections\<close> either connects or throws; after the exceptions for an
  unknown host and for a bad password the user is asked, and the value carries the
  answer (the password, or nothing when the user cancels).
\<close>

datatype ssh_outcome =
  Connected
  | SSH_CONNECTION_ERROR
  | SSH_UNKNOWN_ERROR
  | SSH_UNKNOWN_HOST_ERROR bool
  | SSH_BAD_PASSWORD_ERROR "string option"

text \<open>
  What \<^verbatim>\<open>load\<close> reads from outside the engine: the file system, the settings files, the
  default constructor of \<^verbatim>\<open>Xtal\<close>, \<^verbatim>\<open>Xtal::readSettings\<close>, the optimizer with its
  \<^verbatim>\<open>load\<close>, the outcomes of the connection attempts in the order in which they happen,
  and the user's answer to the question whether to resume.
\<close>

record session_env =
  can_open :: "string \<Rightarrow> bool"
  settings_of :: "string \<Rightarrow> string \<Rightarrow> qvariant option"
  absolute_dir :: "string \<Rightarrow> string"
  entryList :: "string \<Rightarrow> string list"
  file_exists :: "string \<Rightarrow> bool"
  emptyXtal :: xtal
  readSettings :: "string \<Rightarrow> xtal \<Rightarrow> xtal"
  optimizer_id :: string
  optimizer_load :: "xtal \<Rightarrow> bool \<times> xtal"
  ssh_outcomes :: "ssh_outcome list"
  ssh_username :: string
  ssh_host :: string
  ssh_port :: nat
  resume_answer :: bool

text \<open>The loop \<^verbatim>\<open>for (;;)\<close> around \<^verbatim>\<open>makeConnections\<close>.  When the outcomes at hand are used
  up the loop has not ended.\<close>

fun ssh_setup :: "session_env \<Rightarrow> ssh_outcome list \<Rightarrow> engine \<Rightarrow> failure + engine" where
  "ssh_setup env [] e = Inl OutOfFuel"
| "ssh_setup env (Connected # rest) e = Inr e"
| "ssh_setup env (SSH_UNKNOWN_HOST_ERROR ok # rest) e =
     (if \<not> ok then Inr (e\<lparr>readOnly := True\<rparr>) else ssh_setup env rest e)"
| "ssh_setup env (SSH_BAD_PASSWORD_ERROR answer # rest) e =
     (case answer of
        None \<Rightarrow> Inr (e\<lparr>readOnly := True\<rparr>)
      | Some newPassword \<Rightarrow> ssh_setup env rest e)"
| "ssh_setup env (other # rest) e =
     Inr ((error (''There was a problem connection to the ssh server at ''
             @ ssh_username env @ ''@'' @ ssh_host env @ '':''
             @ string_of_nat (ssh_port env) @ ''. ''
             @ ''Please check that all provided information is correct, ''
             @ ''and attempt to log in outside of Avogadro before trying again.''
             @ ''XtalOpt will continue to load in read-only mode.'') e)
          \<lparr>readOnly := True\<rparr>)"

text \<open>The directories of candidates: the entries of the data directory without \<^verbatim>\<open>.\<close> and
  \<^verbatim>\<open>..\<close> that hold \<^verbatim>\<open>structure.state\<close> or \<^verbatim>\<open>xtal.state\<close>.\<close>

definition xtal_dirs :: "session_env \<Rightarrow> string \<Rightarrow> string list" where
  "xtal_dirs env dataPath =
     filter (\<lambda>d. file_exists env (dataPath @ ''/'' @ d @ ''/structure.state'')
                \<or> file_exists env (dataPath @ ''/'' @ d @ ''/xtal.state''))
       (filter (\<lambda>d. d \<noteq> ''..'') (filter (\<lambda>d. d \<noteq> ''.'') (entryList env dataPath)))"

definition empty_atom :: atom where
  "empty_atom = \<lparr>atomicNumber = 0, pos = (0, 0, 0)\<rparr>"

text \<open>The loop over the directories: each candidate that the optimizer can load joins
  \<^verbatim>\<open>loadedStructures\<close>, for every other one an error is reported.\<close>

fun load_structures ::
  "session_env \<Rightarrow> settings \<Rightarrow> string \<Rightarrow> string list \<Rightarrow> xtal list \<Rightarrow> engine
     \<Rightarrow> xtal list \<times> engine" where
  "load_structures env cfg dataPath [] loadedStructures e = (loadedStructures, e)"
| "load_structures env cfg dataPath (d # dirs) loadedStructures e =
     (let structure_state = dataPath @ ''/'' @ d @ ''/structure.state'';
          xtal_state = dataPath @ ''/'' @ d @ ''/xtal.state'';
          xtalStateFileName =
            (if \<not> file_exists env structure_state \<and> file_exists env xtal_state
             then xtal_state else structure_state);
          x = emptyXtal env;
          x = x\<lparr>geom := (geom x)\<lparr>atoms := atoms (geom x)
                 @ replicate (sum_list (map (comp_value (comp cfg)) (map fst (comp cfg))))
                     empty_atom\<rparr>\<rparr>;
          x = x\<lparr>file_name := dataPath @ ''/'' @ d @ ''/''\<rparr>;
          x = readSettings env xtalStateFileName x;
          state = status x;
          endtime = opt_timer_end x
      in case optimizer_load env x of
           (False, x') \<Rightarrow>
             load_structures env cfg dataPath dirs loadedStructures
               (error (''Error, no (or not appropriate for '' @ optimizer_id env
                         @ '') xtal data in '' @ file_name x'
                         @ ''.\<newline>\<newline>This could be a result of resuming a structure that has not ''
                         @ ''yet done any local optimizations. If so, safely ignore this message.'')
                  e)
         | (True, x') \<Rightarrow>
             load_structures env cfg dataPath dirs
               (loadedStructures @ [x'\<lparr>status := state, opt_timer_end := endtime\<rparr>]) e)"

text \<open>Sorting by index: whenever the candidate at \<open>j\<close> has index \<open>i\<close> it is swapped to
  position \<^verbatim>\<open>curpos\<close>.  \<^verbatim>\<open>QList::swap\<close> needs both positions inside the list.\<close>

fun sort_by_index_inner ::
  "int \<Rightarrow> nat list \<Rightarrow> xtal list \<Rightarrow> nat \<Rightarrow> failure + (xtal list \<times> nat)" where
  "sort_by_index_inner i [] loadedStructures curpos = Inr (loadedStructures, curpos)"
| "sort_by_index_inner i (j # js) loadedStructures curpos =
     (if index (loadedStructures ! j) = i
      then (if curpos < length loadedStructures
            then sort_by_index_inner i js (swap_at j curpos loadedStructures) (curpos + 1)
            else Inl IndexOutOfRange)
      else sort_by_index_inner i js loadedStructures curpos)"

fun sort_by_index_outer ::
  "nat list \<Rightarrow> xtal list \<Rightarrow> nat \<Rightarrow> failure + xtal list" where
  "sort_by_index_outer [] loadedStructures curpos = Inr loadedStructures"
| "sort_by_index_outer (i # is) loadedStructures curpos =
     (case sort_by_index_inner (int i) [0 ..< length loadedStructures] loadedStructures curpos of
        Inl f \<Rightarrow> Inl f
      | Inr (sorted_so_far, curpos') \<Rightarrow> sort_by_index_outer is sorted_so_far curpos')"

definition reassign_indices :: "xtal list \<Rightarrow> xtal list" where
  "reassign_indices loadedStructures =
     map (\<lambda>(i, s). s\<lparr>index := int i\<rparr>) (enumerate 0 loadedStructures)"

text \<open>The loop that hands the loaded candidates to the store and, when they wait for an
  optimization, to the job-start tracker.\<close>

fun publish_loaded :: "xtal list \<Rightarrow> engine \<Rightarrow> engine" where
  "publish_loaded [] e = e"
| "publish_loaded (s # rest) e =
     (let e1 = tracker_append s e
      in publish_loaded rest
           (if status s = WaitingForOptimization
            then e1\<lparr>job_start_tracker := job_start_tracker e1 @ [s]\<rparr> else e1))"

definition incomplete_message :: "string \<Rightarrow> string" where
  "incomplete_message fileName =
     ''XtalOpt::load(): File '' @ fileName @ '' is incomplete, corrupt, or invalid. (Try ''
       @ fileName @ ''.old if it exists)''"

text \<open>
  \<^verbatim>\<open>load\<close>.  \<open>cfg\<close> holds the settings in effect when the candidates are read, that is
  after \<^verbatim>\<open>m_dialog->readSettings\<close>; the progress display is not modelled.
\<close>

definition load ::
  "session_env \<Rightarrow> settings \<Rightarrow> string \<Rightarrow> bool \<Rightarrow> engine \<Rightarrow> failure + (bool \<times> engine)" where
  "load env cfg filename forceReadOnly e0 =
     (let e = (if forceReadOnly then e0\<lparr>readOnly := True\<rparr> else e0)
      in if \<not> can_open env filename
         then Inr (False,
                error (''XtalOpt::load(): Error opening file '' @ filename @ '' for reading...'') e)
         else
           let stateFileIsValid =
                 toBool (settings_value (settings_of env filename) ''xtalopt/saveSuccessful''
                           (QVBool False))
           in if \<not> stateFileIsValid
              then Inr (False, error (incomplete_message filename) e)
              else
                let dataPath = absolute_dir env filename @ ''/'';
                    xtalDirs = xtal_dirs env dataPath
                in case (if \<not> forceReadOnly \<and> optimizer_id env \<noteq> ''GULP''
                         then ssh_setup env (ssh_outcomes env) e else Inr e) of
                     Inl f \<Rightarrow> Inl f
                   | Inr e1 \<Rightarrow>
                       (let (loadedStructures, e2) = load_structures env cfg dataPath xtalDirs [] e1
                        in case sort_by_index_outer [0 ..< length loadedStructures]
                                  loadedStructures 0 of
                             Inl f \<Rightarrow> Inl f
                           | Inr sorted_structures \<Rightarrow>
                               (let e3 = e2\<lparr>filePath := dataPath\<rparr>;
                                    e4 = publish_loaded (reassign_indices sorted_structures) e3;
                                    e5 = (if \<not> readOnly e4
                                          then e4\<lparr>readOnly := \<not> resume_answer env\<rparr> else e4)
                                in Inr (True, e5))))"

section \<open>Template expansion\<close>

text \<open>
  What the expansion takes from outside the files at hand: \<^verbatim>\<open>QString::number\<close> on a
  \<^verbatim>\<open>double\<close>, the element symbols of OpenBabel, the conversion to fractional coordinates,
  the two accessors of \<^verbatim>\<open>Xtal\<close> that order the atoms by symbol, the macro \<^verbatim>\<open>DEG_TO_RAD\<close>,
  and \<^verbatim>\<open>interpretKeyword_base\<close> of the base class, which rewrites the keywords it knows
  (among them \<^verbatim>\<open>gen\<close> and \<^verbatim>\<open>id\<close>) and leaves every other line as it is.
\<close>

record text_library =
  number :: "real \<Rightarrow> string"
  GetSymbol :: "nat \<Rightarrow> string"
  cartToFrac :: "geom \<Rightarrow> vec3 \<Rightarrow> vec3"
  getNumberOfAtomsAlpha :: "geom \<Rightarrow> nat list"
  getAtomCoordsFrac :: "geom \<Rightarrow> vec3 list"
  DEG_TO_RAD :: real
  interpretKeyword_base :: "string \<Rightarrow> xtal \<Rightarrow> string"

definition newline :: char where
  "newline = CHR 0x0A"

definition tab :: char where
  "tab = CHR 0x09"

definition ANGSTROM_TO_BOHR :: real where
  "ANGSTROM_TO_BOHR = 1889725989 / 1000000000"

text \<open>\<^verbatim>\<open>QString::split("%")\<close>: the pieces between the percent signs, empty ones included.\<close>

fun split_percent :: "string \<Rightarrow> string list" where
  "split_percent [] = [[]]"
| "split_percent (c # cs) =
     (if c = CHR ''%'' then [] # split_percent cs
      else (case split_percent cs of
              [] \<Rightarrow> [[c]]
            | s # ss \<Rightarrow> (c # s) # ss))"

definition GetCellVectors :: "geom \<Rightarrow> vec3 list" where
  "GetCellVectors g = (case cell_matrix g of (v1, v2, v3) \<Rightarrow> [v1, v2, v3])"

text \<open>\<^verbatim>\<open>m.Get(i, j)\<close> on the cell matrix.\<close>

definition matrix_get :: "geom \<Rightarrow> nat \<Rightarrow> nat \<Rightarrow> real" where
  "matrix_get g i j = vec_at (GetCellVectors g ! i) j"

text \<open>The lines of \<^verbatim>\<open>coordsFrac\<close> and \<^verbatim>\<open>coordsFracId\<close>, one for each atom.\<close>

definition coords_line :: "text_library \<Rightarrow> geom \<Rightarrow> bool \<Rightarrow> atom \<Rightarrow> string" where
  "coords_line txt g with_id atom =
     (case cartToFrac txt g (pos atom) of (x, y, z) \<Rightarrow>
        GetSymbol txt (atomicNumber atom) @ '' ''
        @ (if with_id then string_of_nat (atomicNumber atom) @ '' '' else [])
        @ number txt x @ '' '' @ number txt y @ '' '' @ number txt z @ [newline])"

text \<open>The rows of \<^verbatim>\<open>cellMatrixAngstrom\<close> and \<^verbatim>\<open>cellMatrixBohr\<close>, and the single vectors.\<close>

definition vector_text :: "text_library \<Rightarrow> real \<Rightarrow> vec3 \<Rightarrow> string" where
  "vector_text txt scale v =
     concat (map (\<lambda>i. number txt (vec_at v i * scale) @ [tab]) [0 ..< 3])"

definition matrix_text :: "text_library \<Rightarrow> real \<Rightarrow> geom \<Rightarrow> string" where
  "matrix_text txt scale g =
     concat (map (\<lambda>i. concat (map (\<lambda>j. number txt (matrix_get g i j * scale) @ [tab]) [0 ..< 3])
                        @ [newline]) [0 ..< 3])"

text \<open>The lines of three numbers in \<^verbatim>\<open>POSCAR\<close>: each number is followed by a blank.\<close>

definition poscar_line :: "text_library \<Rightarrow> vec3 \<Rightarrow> string" where
  "poscar_line txt v =
     (case v of (x, y, z) \<Rightarrow>
        number txt x @ '' '' @ number txt y @ '' '' @ number txt z @ '' '' @ [newline])"

definition poscar_text :: "text_library \<Rightarrow> xtal \<Rightarrow> string" where
  "poscar_text txt x =
     file_name x @ [newline]
     @ number txt 1 @ [newline]
     @ concat (map (poscar_line txt) (GetCellVectors (geom x)))
     @ concat (map (\<lambda>n. string_of_nat n @ '' '') (getNumberOfAtomsAlpha txt (geom x)))
     @ [newline]
     @ ''Direct'' @ [newline]
     @ concat (map (poscar_line txt) (getAtomCoordsFrac txt (geom x)))"

text \<open>The chain of comparisons in \<^verbatim>\<open>interpretKeyword\<close>: the text \<^verbatim>\<open>rep\<close> for the line, empty
  when the line is none of the keywords.\<close>

definition replacement :: "cell_library \<Rightarrow> text_library \<Rightarrow> string \<Rightarrow> xtal \<Rightarrow> string" where
  "replacement lib txt line x =
     (let g = geom x in
      if line = ''a'' then number txt (getA lib g)
      else if line = ''b'' then number txt (getB lib g)
      else if line = ''c'' then number txt (getC lib g)
      else if line = ''alphaRad'' then number txt (getAlpha lib g * DEG_TO_RAD txt)
      else if line = ''betaRad'' then number txt (getBeta lib g * DEG_TO_RAD txt)
      else if line = ''gammaRad'' then number txt (getGamma lib g * DEG_TO_RAD txt)
      else if line = ''alphaDeg'' then number txt (getAlpha lib g)
      else if line = ''betaDeg'' then number txt (getBeta lib g)
      else if line = ''gammaDeg'' then number txt (getGamma lib g)
      else if line = ''volume'' then number txt (getVolume lib g)
      else if line = ''coordsFrac'' then concat (map (coords_line txt g False) (atoms g))
      else if line = ''coordsFracId'' then concat (map (coords_line txt g True) (atoms g))
      else if line = ''cellMatrixAngstrom'' then matrix_text txt 1 g
      else if line = ''cellVector1Angstrom'' then vector_text txt 1 (GetCellVectors g ! 0)
      else if line = ''cellVector2Angstrom'' then vector_text txt 1 (GetCellVectors g ! 1)
      else if line = ''cellVector3Angstrom'' then vector_text txt 1 (GetCellVectors g ! 2)
      else if line = ''cellMatrixBohr'' then matrix_text txt ANGSTROM_TO_BOHR g
      else if line = ''cellVector1Bohr'' then vector_text txt ANGSTROM_TO_BOHR (GetCellVectors g ! 0)
      else if line = ''cellVector2Bohr'' then vector_text txt ANGSTROM_TO_BOHR (GetCellVectors g ! 1)
      else if line = ''cellVector3Bohr'' then vector_text txt ANGSTROM_TO_BOHR (GetCellVectors g ! 2)
      else if line = ''POSCAR'' then poscar_text txt x
      else [])"

text \<open>\<^verbatim>\<open>rep.replace(QRegExp("\n$"), "")\<close>: a newline at the very end of the text goes.\<close>

definition remove_trailing_newline :: "string \<Rightarrow> string" where
  "remove_trailing_newline rep =
     (if rep \<noteq> [] \<and> last rep = newline then butlast rep else rep)"

definition ends_with_newline :: "string \<Rightarrow> bool" where
  "ends_with_newline s = (s \<noteq> [] \<and> last s = newline)"

text \<open>A text that has no newline at its end, or exactly one.\<close>

definition tidy :: "string \<Rightarrow> bool" where
  "tidy rep =
     (\<not> ends_with_newline rep \<or> (\<exists>s. rep = s @ [newline] \<and> \<not> ends_with_newline s))"

text \<open>\<^verbatim>\<open>interpretKeyword\<close>: the line after the call.\<close>

definition interpretKeyword :: "cell_library \<Rightarrow> text_library \<Rightarrow> string \<Rightarrow> xtal \<Rightarrow> string" where
  "interpretKeyword lib txt line x =
     (let rep = replacement lib txt line x
      in if rep \<noteq> [] then remove_trailing_newline rep else line)"

text \<open>The body of the loop in \<^verbatim>\<open>interpretTemplate\<close>: what stands at \<^verbatim>\<open>line_ind\<close> afterwards.\<close>

definition interpret_line :: "cell_library \<Rightarrow> text_library \<Rightarrow> xtal \<Rightarrow> string \<Rightarrow> string" where
  "interpret_line lib txt x origLine =
     (let line = interpretKeyword_base txt origLine x;
          line = interpretKeyword lib txt line x
      in if line \<noteq> origLine then line else origLine)"

definition interpretTemplate :: "cell_library \<Rightarrow> text_library \<Rightarrow> string \<Rightarrow> xtal \<Rightarrow> string" where
  "interpretTemplate lib txt templateString x =
     (let list = map (interpret_line lib txt x) (split_percent templateString);
          ret = concat list
      in ret @ [newline])"

text \<open>The keywords that \<^verbatim>\<open>interpretKeyword\<close> compares the line with.\<close>

definition xtal_keywords :: "string list" where
  "xtal_keywords =
     [''a'', ''b'', ''c'', ''alphaRad'', ''betaRad'', ''gammaRad'',
      ''alphaDeg'', ''betaDeg'', ''gammaDeg'', ''volume'', ''coordsFrac'', ''coordsFracId'',
      ''cellMatrixAngstrom'', ''cellVector1Angstrom'', ''cellVector2Angstrom'',
      ''cellVector3Angstrom'', ''cellMatrixBohr'', ''cellVector1Bohr'', ''cellVector2Bohr'',
      ''cellVector3Bohr'', ''POSCAR'']"

section \<open>Concrete inputs\<close>

text \<open>
  A small instance of the crystallographic library, for running the model on concrete
  inputs: cells are rectangular boxes, given by the diagonal of the cell matrix.  The
  volume is the product of the edges, \<^verbatim>\<open>setVolume\<close> stretches the first edge,
  \<^verbatim>\<open>rescaleCell\<close> sets the edges that are not 0, all angles are 90 degrees.
\<close>

fun box_edges :: "geom \<Rightarrow> real \<times> real \<times> real" where
  "box_edges g = (case cell_matrix g of ((x, _, _), (_, y, _), (_, _, z)) \<Rightarrow> (x, y, z))"

definition box_of :: "real \<Rightarrow> real \<Rightarrow> real \<Rightarrow> geom \<Rightarrow> geom" where
  "box_of x y z g = g\<lparr>cell_matrix := ((x, 0, 0), (0, y, 0), (0, 0, z))\<rparr>"

definition box_volume :: "geom \<Rightarrow> real" where
  "box_volume g = (case box_edges g of (x, y, z) \<Rightarrow> x * y * z)"

definition box_library :: cell_library where
  "box_library =
     \<lparr>getVolume = box_volume,
      setVolume = (\<lambda>v g. case box_edges g of (x, y, z) \<Rightarrow> box_of (v / (y * z)) y z g),
      rescaleCell = (\<lambda>a b c alpha beta gamma g. case box_edges g of (x, y, z) \<Rightarrow>
         box_of (if a = 0 then x else a) (if b = 0 then y else b) (if c = 0 then z else c) g),
      fixAngles = (\<lambda>g. g),
      getA = (\<lambda>g. fst (box_edges g)),
      getB = (\<lambda>g. fst (snd (box_edges g))),
      getC = (\<lambda>g. snd (snd (box_edges g))),
      getAlpha = (\<lambda>g. 90),
      getBeta = (\<lambda>g. 90),
      getGamma = (\<lambda>g. 90),
      is_nan_or_inf = (\<lambda>v. False),
      getShortestInteratomicDistance = (\<lambda>g. None),
      findSpaceGroup = (\<lambda>tol g. 1)\<rparr>"

text \<open>The settings of scenario S1 with the tolerances of scenario S4.\<close>

definition sample_settings :: settings where
  "sample_settings =
     \<lparr>lim = \<lparr>a_min = 3, a_max = 5, b_min = 3, b_max = 5, c_min = 3, c_max = 5,
             alpha_min = 80, alpha_max = 100, beta_min = 80, beta_max = 100,
             gamma_min = 80, gamma_max = 100\<rparr>,
      vol_min = 30, vol_max = 120, vol_fixed = 64, using_fixed_volume = False,
      using_shortestInteratomicDistance = True, shortestInteratomicDistance = 3 / 2,
      tol_enthalpy = 1 / 100, tol_volume = 1 / 10, tol_spg = 1 / 20,
      comp = [(14, 4)], popSize = 10\<rparr>"

text \<open>A candidate with the given generation, id, index, state, space group, enthalpy and
  the edges of its box.\<close>

definition sample_xtal ::
  "32 word \<Rightarrow> 32 word \<Rightarrow> int \<Rightarrow> state \<Rightarrow> nat \<Rightarrow> real \<Rightarrow> real \<times> real \<times> real \<Rightarrow> xtal" where
  "sample_xtal gen ident idx st spg h edges =
     \<lparr>generation = gen, id_number = ident, index = idx, parents = ''Randomly generated'',
      status = st, current_step = 1, fail_count = 0, energy = h, enthalpy = h,
      has_enthalpy = True, PV = 0, duplicate_string = [], file_name = [],
      rempath_of = [], opt_timer_end = 0, spacegroup = spg,
      geom = (case edges of (x, y, z) \<Rightarrow>
                \<lparr>cell_matrix = ((x, 0, 0), (0, y, 0), (0, 0, z)), atoms = []\<rparr>)\<rparr>"

text \<open>The store of scenario S4, and a store of three candidates each within the
  enthalpy tolerance of the next.\<close>

definition s4_store :: "xtal list" where
  "s4_store =
     [sample_xtal 1 1 0 Optimized 225 (- 10) (50, 1, 1),
      sample_xtal 1 2 1 Optimized 225 (- 100001 / 10000) (500005 / 10000, 1, 1)]"

definition chain_store :: "xtal list" where
  "chain_store =
     [sample_xtal 1 1 0 Optimized 225 (- 10) (50, 1, 1),
      sample_xtal 1 2 1 Optimized 225 (- 9995 / 1000) (50, 1, 1),
      sample_xtal 1 3 2 Optimized 225 (- 999 / 100) (50, 1, 1)]"

text \<open>Three candidates of one enthalpy and one volume.\<close>

definition tie_store :: "xtal list" where
  "tie_store =
     [sample_xtal 1 1 0 Optimized 225 (- 10) (50, 1, 1),
      sample_xtal 1 2 1 Optimized 225 (- 10) (50, 1, 1),
      sample_xtal 1 3 2 Optimized 225 (- 10) (50, 1, 1)]"

definition chain_settings :: settings where
  "chain_settings = sample_settings\<lparr>tol_enthalpy := 6 / 1000\<rparr>"

definition sample_engine :: engine where
  "sample_engine =
     \<lparr>tracker = [], job_start_tracker = [], isStarting = False, readOnly = False,
      scheduled = [], log_error = [], log_warning = [],
      filePath = ''/tmp/run'', rempath = ''/scratch/run'', directories = [],
      mkpath_succeeds = (\<lambda>path. True)\<rparr>"

text \<open>A random source that always draws 1/2 and counts its calls, with a constructor for
  boxes and an \<^verbatim>\<open>addAtomRandomly\<close> that fails during the first ten calls and succeeds
  later; genetic operators that always fail.\<close>

definition sample_random :: "nat random_library" where
  "sample_random =
     \<lparr>INIT_RANDOM_GENERATOR = (\<lambda>r. r),
      RANDDOUBLE = (\<lambda>r. (1 / 2, r + 1)),
      newXtal = (\<lambda>a b c alpha beta gamma. sample_xtal 0 0 0 Empty 0 0 (a, b, c)),
      addAtomRandomly = (\<lambda>atomicNum IAD g r.
         ((10 \<le> r,
           g\<lparr>atoms := atoms g @ [\<lparr>atomicNumber = atomicNum, pos = (real r, 0, 0)\<rparr>]\<rparr>),
          r + 1))\<rparr>"

definition sample_genetic :: "nat genetic_library" where
  "sample_genetic =
     \<lparr>sortByEnthalpy = (\<lambda>xs. xs),
      getProbabilityList = (\<lambda>xs. map (\<lambda>x. 1) xs),
      crossover = (\<lambda>x1 x2 m r. ((None, 50), r)),
      stripple = (\<lambda>x ops r. ((None, 0, 0), r)),
      permustrain = (\<lambda>x stdev ex r. ((None, 0), r)),
      number_f = (\<lambda>v prec. ''0'')\<rparr>"

definition sample_operators :: operator_settings where
  "sample_operators =
     \<lparr>p_cross = 15, p_strip = 50, cross_minimumContribution = 25,
      strip_strainStdev_min = 0, strip_strainStdev_max = 1 / 2,
      strip_amp_min = 1 / 2, strip_amp_max = 1, strip_per1 = 1, strip_per2 = 1,
      perm_strainStdev_max = 1 / 2, perm_ex = 4\<rparr>"

text \<open>A box whose volume, 120.5, lies above the range of \<open>sample_settings\<close>; a box whose
  volume, 24, lies below it; a cube inside the range; a candidate that has failed three
  times.\<close>

definition salvage_sample :: xtal where
  "salvage_sample = sample_xtal 1 1 0 WaitingForOptimization 0 0 (241 / 32, 4, 4)"

definition thin_sample :: xtal where
  "thin_sample = sample_xtal 1 3 2 WaitingForOptimization 0 0 (3 / 2, 4, 4)"

definition cube_sample :: xtal where
  "cube_sample = sample_xtal 1 2 1 WaitingForOptimization 0 0 (4, 4, 4)"

definition failed_sample :: xtal where
  "failed_sample =
     (sample_xtal 3 7 5 Error 225 (- 10) (50, 1, 1))\<lparr>fail_count := 3, current_step := 2, PV := 5\<rparr>"

text \<open>A session directory with one candidate in \<^verbatim>\<open>00001x00001\<close>, read without
  connecting; the state file says whether the last save succeeded.\<close>

definition sample_session :: "qvariant option \<Rightarrow> session_env" where
  "sample_session flag =
     \<lparr>can_open = (\<lambda>path. True),
      settings_of = (\<lambda>path key. if key = ''xtalopt/saveSuccessful'' then flag else None),
      absolute_dir = (\<lambda>path. ''/tmp/run''),
      entryList = (\<lambda>dir. [''.'', ''..'', ''00001x00001'']),
      file_exists = (\<lambda>path. path = ''/tmp/run//00001x00001/xtal.state''),
      emptyXtal = sample_xtal 0 0 0 Empty 0 0 (1, 1, 1),
      readSettings = (\<lambda>path x. x\<lparr>generation := 1, id_number := 1, index := 0,
                                      status := WaitingForOptimization\<rparr>),
      optimizer_id = ''GULP'',
      optimizer_load = (\<lambda>x. (True, x)),
      ssh_outcomes = [],
      ssh_username = ''user'',
      ssh_host = ''host'',
      ssh_port = 22,
      resume_answer = False\<rparr>"

text \<open>A text library that prints 4 as \<^verbatim>\<open>4\<close> and every other number as \<^verbatim>\<open>0\<close>, with a base
  class that knows the keywords \<^verbatim>\<open>gen\<close> and \<^verbatim>\<open>id\<close>.\<close>

definition sample_text :: text_library where
  "sample_text =
     \<lparr>number = (\<lambda>v. if v = 4 then ''4'' else ''0''),
      GetSymbol = (\<lambda>z. ''Si''),
      cartToFrac = (\<lambda>g p. p),
      getNumberOfAtomsAlpha = (\<lambda>g. [length (atoms g)]),
      getAtomCoordsFrac = (\<lambda>g. map pos (atoms g)),
      DEG_TO_RAD = 314159 / 18000000,
      interpretKeyword_base = (\<lambda>line x.
         if line = ''gen'' then string_of_nat (unat (generation x))
         else if line = ''id'' then string_of_nat (unat (id_number x))
         else line)\<rparr>"

section \<open>Properties of the conformer probabilities\<close>

lemma foldl_dadd_Fin: "foldl dadd (Fin a) (map Fin xs) = Fin (a + sum_list xs)"
  by (induction xs arbitrary: a) (auto simp: algebra_simps)

lemma cumulate_Fin:
  "\<forall>x\<in>set xs. 0 \<le> x \<Longrightarrow>
   \<exists>ys. cumulate (Fin a) (map Fin xs) = map Fin ys \<and> length ys = length xs \<and> sorted ys
      \<and> (\<forall>y\<in>set ys. a \<le> y)
      \<and> (ys \<noteq> [] \<longrightarrow> ys ! 0 = a + xs ! 0 \<and> last ys = a + sum_list xs)"
proof (induction xs arbitrary: a)
  case Nil
  then show ?case by simp
next
  case (Cons x xs)
  have x: "0 \<le> x" and xs: "\<forall>x\<in>set xs. 0 \<le> x" using Cons.prems by simp_all
  from Cons.IH[OF xs, of "a + x"]
  obtain ys where ys: "cumulate (Fin (a + x)) (map Fin xs) = map Fin ys" "length ys = length xs"
     "sorted ys" "\<forall>y\<in>set ys. a + x \<le> y" "ys \<noteq> [] \<longrightarrow> last ys = a + x + sum_list xs"
    by blast
  have 1: "cumulate (Fin a) (map Fin (x # xs)) = map Fin ((a + x) # ys)"
    using ys(1) by simp
  have 2: "sorted ((a + x) # ys)" using ys(3,4) by simp
  have 3: "\<forall>y\<in>set ((a + x) # ys). a \<le> y" using ys(4) x by auto
  have 4: "last ((a + x) # ys) = a + sum_list (x # xs)"
    using ys(5) by (cases "ys = []") (use ys(2) in auto)
  show ?case
    apply (rule exI[of _ "(a + x) # ys"])
    using 1 2 3 4 ys(2) by simp
qed

lemma spread_arith:
  fixes d n :: real
  assumes "0 < n"
  shows "d + d / n = d * (n + 1) / n"
  using assms by (simp add: field_simps)

lemma ratio_arith:
  fixes d n :: real
  assumes "0 < d" "0 < n"
  shows "d / (d * (n + 1) / n) = n / (n + 1)"
proof -
  have "d / (d * (n + 1) / n) = (d * n) / (d * (n + 1))" by simp
  also have "\<dots> = n / (n + 1)" using assms(1) by simp
  finally show ?thesis .
qed

lemma sum_list_div_const:
  fixes S :: real
  shows "sum_list (map (\<lambda>x. x / S) ws) = sum_list ws / S"
  by (induction ws) (simp_all add: add_divide_distrib)

text \<open>The spread is \<open>(hi - lo) \<cdot> (n + 1) / n\<close>.\<close>

lemma spread_of_eq:
  assumes "2 \<le> length es"
  shows "spread_of es =
    (es ! (length es - 1) - es ! 0) * (real (length es) + 1) / real (length es)"
proof -
  have "0 < length es" using assms by linarith
  then have n: "0 < real (length es)" by simp
  have "spread_of es =
      (es ! (length es - 1) - es ! 0) + (es ! (length es - 1) - es ! 0) / real (length es)"
    by (simp add: spread_of_def Let_def)
  then show ?thesis by (simp only: spread_arith[OF n])
qed

lemma spread_of_pos:
  assumes "2 \<le> length es" "es ! 0 < es ! (length es - 1)"
  shows "0 < spread_of es"
proof -
  have "0 < length es" using assms by linarith
  then have n: "0 < real (length es)" by simp
  have d: "0 < es ! (length es - 1) - es ! 0" using assms(2) by simp
  have "0 < (es ! (length es - 1) - es ! 0) * (real (length es) + 1) / real (length es)"
    using n d by (intro divide_pos_pos mult_pos_pos) simp_all
  then show ?thesis by (simp only: spread_of_eq[OF assms(1)])
qed

lemma sum_list_pos_real: "ws \<noteq> [] \<Longrightarrow> \<forall>x\<in>set ws. (0::real) < x \<Longrightarrow> 0 < sum_list ws"
proof (induction ws)
  case Nil then show ?case by simp
next
  case (Cons w ws)
  have "0 \<le> sum_list ws" using Cons.prems by (intro sum_list_nonneg) auto
  then show ?case using Cons.prems by simp
qed

lemma weight_pos:
  assumes "sorted es" "2 \<le> length es" "es ! 0 < es ! (length es - 1)" "e \<in> set es"
  shows "0 < 1 - (e - es ! 0) / spread_of es"
proof -
  define n where "n = real (length es)"
  define lo where "lo = es ! 0"
  define hi where "hi = es ! (length es - 1)"
  from assms(4) obtain i where i: "i < length es" "es ! i = e" by (auto simp: in_set_conv_nth)
  have "es ! i \<le> es ! (length es - 1)"
    using assms(1) i by (intro sorted_nth_mono) auto
  then have le: "e \<le> hi" using i by (simp add: hi_def)
  have sp: "0 < spread_of es" by (rule spread_of_pos[OF assms(2,3)])
  have "0 < length es" using assms(2) by linarith
  then have n: "0 < n" by (simp add: n_def)
  have d: "0 < hi - lo" using assms(3) by (simp add: hi_def lo_def)
  have sp_eq: "spread_of es = (hi - lo) * (n + 1) / n"
    using spread_of_eq[OF assms(2)] by (simp add: hi_def lo_def n_def)
  have "(e - lo) / spread_of es \<le> (hi - lo) / spread_of es"
    using le sp by (simp add: divide_right_mono)
  also have "\<dots> = n / (n + 1)"
    by (simp only: sp_eq ratio_arith[OF d n])
  also have "\<dots> < 1" using n by simp
  finally show ?thesis by (simp add: lo_def)
qed

text \<open>
  On ascending energies that are not all equal the four loops produce finite numbers:
  an ascending list that starts above 0 and ends at 1.  This is a statement about exact
  arithmetic: the model computes with real numbers, whereas the rounding of doubles can
  leave a last entry that is not exactly 1.
\<close>

lemma weighted_probs_sorted:
  assumes "sorted es" "2 \<le> length es" "es ! 0 < es ! (length es - 1)"
  shows "\<exists>ys. weighted_probs es = map Fin ys \<and> length ys = length es \<and> sorted ys
            \<and> 0 < ys ! 0 \<and> last ys = 1"
proof -
  define lo where "lo = es ! 0"
  define sp where "sp = spread_of es"
  define ws where "ws = map (\<lambda>e. 1 - (e - lo) / sp) es"
  define S where "S = sum_list ws"
  define qs where "qs = map (\<lambda>x. x / S) ws"
  have sp_pos: "0 < sp" unfolding sp_def by (rule spread_of_pos[OF assms(2,3)])
  have es_ne: "es \<noteq> []" using assms(2) by auto
  have ws_pos: "\<forall>x\<in>set ws. 0 < x"
    using weight_pos[OF assms] by (auto simp: ws_def lo_def sp_def)
  have ws_ne: "ws \<noteq> []" using es_ne by (simp add: ws_def)
  have S_pos: "0 < S" unfolding S_def by (rule sum_list_pos_real[OF ws_ne ws_pos])
  have ps2: "map (\<lambda>p. dsub (Fin 1) p) (map (\<lambda>e. ddiv (Fin (e - lo)) (Fin sp)) es) = map Fin ws"
    using sp_pos by (simp add: ws_def dsub_def)
  have sum: "foldl dadd (Fin 0) (map Fin ws) = Fin S"
    by (simp add: foldl_dadd_Fin S_def)
  have ps3: "map (\<lambda>p. ddiv p (Fin S)) (map Fin ws) = map Fin qs"
    using S_pos by (simp add: qs_def)
  have wp: "weighted_probs es = cumulate (Fin 0) (map Fin qs)"
    unfolding weighted_probs_def Let_def lo_def[symmetric] sp_def[symmetric]
    by (simp only: ps2 sum ps3)
  have qs_nonneg: "\<forall>x\<in>set qs. 0 \<le> x"
    using ws_pos S_pos by (auto simp: qs_def intro: less_imp_le)
  from cumulate_Fin[OF qs_nonneg, of 0]
  obtain ys where ys: "cumulate (Fin 0) (map Fin qs) = map Fin ys" "length ys = length qs"
      "sorted ys" "ys \<noteq> [] \<longrightarrow> ys ! 0 = 0 + qs ! 0 \<and> last ys = 0 + sum_list qs"
    by blast
  have len: "length ys = length es" using ys(2) by (simp add: qs_def ws_def)
  have ys_ne: "ys \<noteq> []" using len es_ne by auto
  have "sum_list qs = sum_list ws / S"
    unfolding qs_def by (rule sum_list_div_const)
  then have sum_qs: "sum_list qs = 1" using S_pos by (simp add: S_def)
  have "0 < ws ! 0" using ws_pos ws_ne by simp
  moreover have "qs ! 0 = ws ! 0 / S" using ws_ne by (simp add: qs_def)
  ultimately have q0: "0 < qs ! 0" using S_pos by simp
  have y0: "0 < ys ! 0" and yl: "last ys = 1" using ys(4) ys_ne q0 sum_qs by simp_all
  show ?thesis
    using wp ys(1,3) len y0 yl by auto
qed

text \<open>The selection sort leaves ascending energies as they are.\<close>

lemma sort_inner_id:
  "\<forall>j\<in>set js. \<not> energies s ! j < energies s ! i \<Longrightarrow> sort_inner i js s = s"
  by (induction js arbitrary: s) auto

lemma sort_outer_id:
  "sorted (energies s) \<Longrightarrow> set is \<subseteq> {..<numConformers s} \<Longrightarrow> sort_outer is s = s"
proof (induction "is" arbitrary: s)
  case Nil then show ?case by simp
next
  case (Cons i "is")
  have "sort_inner i [i ..< numConformers s] s = s"
    apply (rule sort_inner_id)
    using Cons.prems by (auto simp: numConformers_def sorted_iff_nth_mono not_less)
  then show ?case using Cons by simp
qed

lemma sortConformers_sorted:
  "sorted (energies s) \<Longrightarrow>
   sortConformers s = s\<lparr>debug_log := debug_log s @ [''Substrate::sortConformers( ) called'']\<rparr>"
  unfolding sortConformers_def
  by (rule sort_outer_id) (auto simp: numConformers_def)

text \<open>
  The probability list of a substrate with at least two conformers, ascending in energy
  and not all of one energy: with exact arithmetic every entry is a finite number, the
  list ascends, starts above 0 and ends at 1.
\<close>

lemma generateProbabilities_sorted:
  assumes "sorted (energies s)" "2 \<le> numConformers s"
    and "energies s ! 0 < energies s ! (numConformers s - 1)"
  shows "\<exists>s' ys. generateProbabilities s = Some s' \<and> m_probs s' = map Fin ys
           \<and> length ys = numConformers s \<and> sorted ys \<and> 0 < ys ! 0 \<and> last ys = 1"
proof -
  from weighted_probs_sorted[of "energies s"] assms
  obtain ys where ys: "weighted_probs (energies s) = map Fin ys" "length ys = length (energies s)"
      "sorted ys" "0 < ys ! 0" "last ys = 1"
    unfolding numConformers_def by blast
  have "generateProbabilities s =
      Some ((sortConformers s)\<lparr>m_probs := weighted_probs (energies (sortConformers s))\<rparr>)"
    using assms(2) by (simp add: generateProbabilities_def Let_def)
  then have "generateProbabilities s =
      Some (s\<lparr>debug_log := debug_log s @ [''Substrate::sortConformers( ) called''],
              m_probs := map Fin ys\<rparr>)"
    using ys(1) by (simp add: sortConformers_sorted[OF assms(1)])
  moreover have "length ys = numConformers s" using ys(2) by (simp add: numConformers_def)
  ultimately show ?thesis
    using ys(3,4,5) by (intro exI[of _ "s\<lparr>debug_log := debug_log s
      @ [''Substrate::sortConformers( ) called''], m_probs := map Fin ys\<rparr>"] exI[of _ ys]) simp
qed

text \<open>
  C2.  The probability list of every ascending input of at least two energies is claimed
  to ascend from a first value of at least 0 to a last value of at most 1.  Two conformers
  of equal energy (ascending, length 2) have spread 0: every quotient is 0/0, and the list
  that \<^verbatim>\<open>generateProbabilities\<close> leaves in \<^verbatim>\<open>m_probs\<close> holds NaN twice, which is neither
  at least 0, nor at most 1, nor in any order.
\<close>

theorem generateProbabilities_equal_energies:
  "map_option m_probs
     (generateProbabilities
        \<lparr>conformers = [0 :: nat, 1], energies = [0, 0], m_probs = [], debug_log = []\<rparr>)
     = Some [NaN, NaN]
   \<and> \<not> dle (Fin 0) NaN \<and> \<not> dle NaN (Fin 1) \<and> \<not> dle NaN NaN"
  by (simp add: generateProbabilities_def numConformers_def sortConformers_def swap_at_def
      weighted_probs_def spread_of_def dsub_def dle_def Let_def upt_rec)

text \<open>
  C8.  \<^verbatim>\<open>getRandomConformerIndex\<close> returns the number it drew, converted to \<^verbatim>\<open>int\<close>,
  whatever the probability list holds: for a draw in \<open>[0, 1)\<close> that is 0.  The index that
  the loop selected is not returned.
\<close>

theorem getRandomConformerIndex_returns_draw:
  "fst (getRandomConformerIndex s r) = double_to_int r
   \<and> (0 \<le> r \<and> r < 1 \<longrightarrow> fst (getRandomConformerIndex s r) = Some 0)"
  apply (simp add: getRandomConformerIndex_def Let_def double_to_int_def trunc_toward_zero_def)
  by linarith

theorem getRandomConformerIndex_returns_draw_witness:
  "fst (getRandomConformerIndex
          \<lparr>conformers = [0 :: nat, 1], energies = [0, 1], m_probs = [Fin (2 / 5), Fin 1],
           debug_log = []\<rparr> (1 / 2)) = Some 0
   \<and> chosen_index (1 / 2) [Fin (2 / 5), Fin 1] = 1"
  using getRandomConformerIndex_returns_draw
    [of "\<lparr>conformers = [0 :: nat, 1], energies = [0, 1], m_probs = [Fin (2 / 5), Fin 1],
          debug_log = []\<rparr>" "1 / 2", THEN conjunct2]
  by simp

text \<open>
  C10.  With exactly one conformer \<^verbatim>\<open>generateProbabilities\<close> stores the list \<open>[1.0]\<close> and
  returns: conformers, energies and the debug output are as before, so
  \<^verbatim>\<open>sortConformers\<close> has not run.  The spread of a single energy is 0, and the loops
  below the early return would have stored the NaN of 0/0.
\<close>

theorem generateProbabilities_single:
  assumes "numConformers s = 1"
  shows "generateProbabilities s = Some (s\<lparr>m_probs := [Fin 1]\<rparr>)
       \<and> spread_of (energies s) = 0
       \<and> weighted_probs (energies s) = [NaN]"
proof -
  from assms obtain e where es: "energies s = [e]"
    by (cases "energies s") (auto simp: numConformers_def)
  show ?thesis using assms
    by (simp add: generateProbabilities_def es spread_of_def weighted_probs_def dsub_def)
qed

theorem generateProbabilities_single_witness:
  "generateProbabilities \<lparr>conformers = [0 :: nat], energies = [3], m_probs = [], debug_log = []\<rparr>
     = Some \<lparr>conformers = [0 :: nat], energies = [3], m_probs = [Fin 1], debug_log = []\<rparr>
   \<and> weighted_probs [3] = [NaN]"
  using generateProbabilities_single
    [of "\<lparr>conformers = [0 :: nat], energies = [3], m_probs = [], debug_log = []\<rparr>"]
  by (simp add: numConformers_def)

section \<open>Properties of the duplicate scan\<close>

text \<open>The order in which the hash \<^verbatim>\<open>limits\<close> returns its two keys does not matter to the
  comparison.\<close>

lemma check_limits_order:
  "check_limits cfg [Key_volume, Key_enthalpy] fp_i fp_j
     = check_limits cfg [Key_enthalpy, Key_volume] fp_i fp_j"
  by auto

text \<open>The scan makes its markings one after the other; the markings themselves are
  determined by the snapshot.\<close>

lemma apply_marks_Nil [simp]: "apply_marks [] st = st"
  by (simp add: apply_marks_def)

lemma apply_marks_Cons [simp]: "apply_marks ((d, k) # ms) st = apply_marks ms (mark_duplicate d k st)"
  by (simp add: apply_marks_def)

lemma apply_marks_append [simp]: "apply_marks (ms @ ms') st = apply_marks ms' (apply_marks ms st)"
  by (simp add: apply_marks_def)

lemma scan_inner_marks:
  "scan_inner cfg snap i js st = apply_marks (inner_marks cfg snap i js) st"
  by (induction js arbitrary: st) auto

lemma scan_outer_marks:
  "scan_outer cfg snap is st = apply_marks (outer_marks cfg snap is) st"
  by (induction "is" arbitrary: st) (auto simp: scan_inner_marks)

lemma scan_for_duplicates_marks:
  "scan_for_duplicates lib cfg st = apply_marks (scan_marks lib cfg st) st"
  by (simp add: scan_for_duplicates_def scan_marks_def Let_def scan_outer_marks)

lemma matching_iff:
  "matching cfg snap i j \<longleftrightarrow> \<not> skipped snap i \<and> pair_matches cfg snap i j"
  by (auto simp: matching_def skipped_def pair_matches_def limit_keys_def)

lemma inner_marks_upt:
  "(d, k) \<in> set (inner_marks cfg snap i [a ..< n]) \<longleftrightarrow>
     (\<exists>j. a \<le> j \<and> j < n \<and> pair_matches cfg snap i j
        \<and> (\<forall>j'. a \<le> j' \<and> j' < j \<longrightarrow> pair_matches cfg snap i j'
              \<longrightarrow> \<not> fp_enthalpy (fps snap ! i) > fp_enthalpy (fps snap ! j'))
        \<and> d = higher snap i j \<and> k = lower snap i j)"
proof (induction "n - a" arbitrary: a)
  case 0
  then show ?case by simp
next
  case (Suc m)
  then have an: "a < n" and m: "m = n - Suc a" by simp_all
  have upt: "[a ..< n] = a # [Suc a ..< n]" using an by (simp add: upt_conv_Cons)
  note IH = Suc.hyps(1)[OF m]
  show ?case
  proof (cases "pair_matches cfg snap i a")
    case False
    have "(d, k) \<in> set (inner_marks cfg snap i [a ..< n])
        \<longleftrightarrow> (d, k) \<in> set (inner_marks cfg snap i [Suc a ..< n])"
      using False by (simp add: upt)
    also have "\<dots> \<longleftrightarrow> (\<exists>j. Suc a \<le> j \<and> j < n \<and> pair_matches cfg snap i j
        \<and> (\<forall>j'. Suc a \<le> j' \<and> j' < j \<longrightarrow> pair_matches cfg snap i j'
              \<longrightarrow> \<not> fp_enthalpy (fps snap ! i) > fp_enthalpy (fps snap ! j'))
        \<and> d = higher snap i j \<and> k = lower snap i j)" by (rule IH)
    also have "\<dots> \<longleftrightarrow> (\<exists>j. a \<le> j \<and> j < n \<and> pair_matches cfg snap i j
        \<and> (\<forall>j'. a \<le> j' \<and> j' < j \<longrightarrow> pair_matches cfg snap i j'
              \<longrightarrow> \<not> fp_enthalpy (fps snap ! i) > fp_enthalpy (fps snap ! j'))
        \<and> d = higher snap i j \<and> k = lower snap i j)"
      using False by (metis Suc_leD Suc_leI le_neq_implies_less)
    finally show ?thesis .
  next
    case True
    show ?thesis
    proof (cases "fp_enthalpy (fps snap ! i) > fp_enthalpy (fps snap ! a)")
      case gt: True
      have "(d, k) \<in> set (inner_marks cfg snap i [a ..< n]) \<longleftrightarrow> d = i \<and> k = a"
        using True gt by (simp add: upt)
      also have "\<dots> \<longleftrightarrow> (\<exists>j. a \<le> j \<and> j < n \<and> pair_matches cfg snap i j
        \<and> (\<forall>j'. a \<le> j' \<and> j' < j \<longrightarrow> pair_matches cfg snap i j'
              \<longrightarrow> \<not> fp_enthalpy (fps snap ! i) > fp_enthalpy (fps snap ! j'))
        \<and> d = higher snap i j \<and> k = lower snap i j)"
      proof
        assume "d = i \<and> k = a"
        then show "\<exists>j. a \<le> j \<and> j < n \<and> pair_matches cfg snap i j
        \<and> (\<forall>j'. a \<le> j' \<and> j' < j \<longrightarrow> pair_matches cfg snap i j'
              \<longrightarrow> \<not> fp_enthalpy (fps snap ! i) > fp_enthalpy (fps snap ! j'))
        \<and> d = higher snap i j \<and> k = lower snap i j"
          using True gt an by (intro exI[of _ a]) (auto simp: higher_def lower_def)
      next
        assume "\<exists>j. a \<le> j \<and> j < n \<and> pair_matches cfg snap i j
        \<and> (\<forall>j'. a \<le> j' \<and> j' < j \<longrightarrow> pair_matches cfg snap i j'
              \<longrightarrow> \<not> fp_enthalpy (fps snap ! i) > fp_enthalpy (fps snap ! j'))
        \<and> d = higher snap i j \<and> k = lower snap i j"
        then obtain j where j: "a \<le> j" "j < n" "pair_matches cfg snap i j"
          "\<forall>j'. a \<le> j' \<and> j' < j \<longrightarrow> pair_matches cfg snap i j'
              \<longrightarrow> \<not> fp_enthalpy (fps snap ! i) > fp_enthalpy (fps snap ! j')"
          "d = higher snap i j" "k = lower snap i j" by blast
        have "j = a"
        proof (rule ccontr)
          assume "j \<noteq> a"
          then have "a < j" using j(1) by simp
          then show False using j(4) True gt by blast
        qed
        then show "d = i \<and> k = a" using j(5,6) gt by (simp add: higher_def lower_def)
      qed
      finally show ?thesis .
    next
      case ngt: False
      have "(d, k) \<in> set (inner_marks cfg snap i [a ..< n])
          \<longleftrightarrow> (d = a \<and> k = i) \<or> (d, k) \<in> set (inner_marks cfg snap i [Suc a ..< n])"
        using True ngt by (simp add: upt)
      also have "\<dots> \<longleftrightarrow> (d = a \<and> k = i) \<or> (\<exists>j. Suc a \<le> j \<and> j < n \<and> pair_matches cfg snap i j
        \<and> (\<forall>j'. Suc a \<le> j' \<and> j' < j \<longrightarrow> pair_matches cfg snap i j'
              \<longrightarrow> \<not> fp_enthalpy (fps snap ! i) > fp_enthalpy (fps snap ! j'))
        \<and> d = higher snap i j \<and> k = lower snap i j)" by (simp only: IH)
      also have "\<dots> \<longleftrightarrow> (\<exists>j. a \<le> j \<and> j < n \<and> pair_matches cfg snap i j
        \<and> (\<forall>j'. a \<le> j' \<and> j' < j \<longrightarrow> pair_matches cfg snap i j'
              \<longrightarrow> \<not> fp_enthalpy (fps snap ! i) > fp_enthalpy (fps snap ! j'))
        \<and> d = higher snap i j \<and> k = lower snap i j)" (is "?L \<longleftrightarrow> ?R")
      proof
        assume ?L
        then show ?R
        proof
          assume "d = a \<and> k = i"
          then show ?R using True ngt an by (intro exI[of _ a]) (auto simp: higher_def lower_def)
        next
          assume "\<exists>j. Suc a \<le> j \<and> j < n \<and> pair_matches cfg snap i j
        \<and> (\<forall>j'. Suc a \<le> j' \<and> j' < j \<longrightarrow> pair_matches cfg snap i j'
              \<longrightarrow> \<not> fp_enthalpy (fps snap ! i) > fp_enthalpy (fps snap ! j'))
        \<and> d = higher snap i j \<and> k = lower snap i j"
          then obtain j where j: "Suc a \<le> j" "j < n" "pair_matches cfg snap i j"
            "\<forall>j'. Suc a \<le> j' \<and> j' < j \<longrightarrow> pair_matches cfg snap i j'
              \<longrightarrow> \<not> fp_enthalpy (fps snap ! i) > fp_enthalpy (fps snap ! j')"
            "d = higher snap i j" "k = lower snap i j" by blast
          have "\<forall>j'. a \<le> j' \<and> j' < j \<longrightarrow> pair_matches cfg snap i j'
              \<longrightarrow> \<not> fp_enthalpy (fps snap ! i) > fp_enthalpy (fps snap ! j')"
          proof (intro allI impI)
            fix j' assume a: "a \<le> j' \<and> j' < j" and pm: "pair_matches cfg snap i j'"
            show "\<not> fp_enthalpy (fps snap ! i) > fp_enthalpy (fps snap ! j')"
            proof (cases "j' = a")
              case True then show ?thesis using ngt by simp
            next
              case False
              then have "Suc a \<le> j'" using a by simp
              then show ?thesis using j(4) a pm by blast
            qed
          qed
          then show ?R using j by (intro exI[of _ j]) simp
        qed
      next
        assume ?R
        then obtain j where j: "a \<le> j" "j < n" "pair_matches cfg snap i j"
          "\<forall>j'. a \<le> j' \<and> j' < j \<longrightarrow> pair_matches cfg snap i j'
              \<longrightarrow> \<not> fp_enthalpy (fps snap ! i) > fp_enthalpy (fps snap ! j')"
          "d = higher snap i j" "k = lower snap i j" by blast
        show ?L
        proof (cases "j = a")
          case True
          then show ?thesis using j(5,6) ngt by (simp add: higher_def lower_def)
        next
          case False
          then have "Suc a \<le> j" using j(1) by simp
          moreover have "\<forall>j'. Suc a \<le> j' \<and> j' < j \<longrightarrow> pair_matches cfg snap i j'
              \<longrightarrow> \<not> fp_enthalpy (fps snap ! i) > fp_enthalpy (fps snap ! j')"
            using j(4) by auto
          ultimately show ?thesis using j(2,3,5,6) by blast
        qed
      qed
      finally show ?thesis .
    qed
  qed
qed

lemma outer_marks_set:
  "(d, k) \<in> set (outer_marks cfg snap is) \<longleftrightarrow>
     (\<exists>i \<in> set is. \<not> skipped snap i
        \<and> (d, k) \<in> set (inner_marks cfg snap i [i + 1 ..< length (fps snap)]))"
  by (induction "is") auto

lemma found_matching_iff:
  "found_matching cfg snap i j \<longleftrightarrow>
     (i < length (fps snap) \<and> \<not> skipped snap i \<and> i + 1 \<le> j \<and> j < length (fps snap)
      \<and> pair_matches cfg snap i j
      \<and> (\<forall>j'. i + 1 \<le> j' \<and> j' < j \<longrightarrow> pair_matches cfg snap i j'
              \<longrightarrow> \<not> fp_enthalpy (fps snap ! i) > fp_enthalpy (fps snap ! j')))"
  unfolding found_matching_def matching_iff by auto

lemma scan_marks_iff:
  "(d, k) \<in> set (scan_marks lib cfg st) \<longleftrightarrow>
     (\<exists>i j. found_matching cfg (take_snapshot lib st) i j
        \<and> d = higher (take_snapshot lib st) i j \<and> k = lower (take_snapshot lib st) i j)"
proof -
  define snap where "snap = take_snapshot lib st"
  define n where "n = length (fps snap)"
  define hit where "hit = (\<lambda>i j. i + 1 \<le> j \<and> j < n \<and> pair_matches cfg snap i j
      \<and> (\<forall>j'. i + 1 \<le> j' \<and> j' < j \<longrightarrow> pair_matches cfg snap i j'
              \<longrightarrow> \<not> fp_enthalpy (fps snap ! i) > fp_enthalpy (fps snap ! j')))"
  have fm: "found_matching cfg snap i j \<longleftrightarrow> i < n \<and> \<not> skipped snap i \<and> hit i j" for i j
    unfolding found_matching_iff hit_def n_def by blast
  have "(d, k) \<in> set (scan_marks lib cfg st) \<longleftrightarrow>
      (\<exists>i. i < n \<and> \<not> skipped snap i
         \<and> (\<exists>j. hit i j \<and> d = higher snap i j \<and> k = lower snap i j))"
    unfolding scan_marks_def Let_def outer_marks_set inner_marks_upt hit_def n_def snap_def
    by (simp add: Bex_def conj_ac)
  also have "\<dots> \<longleftrightarrow> (\<exists>i j. found_matching cfg snap i j
        \<and> d = higher snap i j \<and> k = lower snap i j)"
    unfolding fm by blast
  finally show ?thesis unfolding snap_def .
qed

lemma higher_lower:
  "i < j \<Longrightarrow> higher snap i j \<noteq> lower snap i j"
  "{higher snap i j, lower snap i j} = {i, j}"
  by (auto simp: higher_def lower_def)

lemma length_mark_duplicate [simp]: "length (mark_duplicate d k st) = length st"
  by (simp add: mark_duplicate_def)

lemma length_apply_marks [simp]: "length (apply_marks ms st) = length st"
  by (induction ms arbitrary: st) auto

lemma mark_duplicate_other: "p \<noteq> d \<Longrightarrow> mark_duplicate d k st ! p = st ! p"
  by (simp add: mark_duplicate_def)

lemma mark_duplicate_same:
  "d < length st \<Longrightarrow> mark_duplicate d k st ! d =
     (st ! d)\<lparr>status := Duplicate,
              duplicate_string := GxI (generation (st ! k)) (id_number (st ! k))\<rparr>"
  by (simp add: mark_duplicate_def)

lemma mark_duplicate_ids:
  "generation (mark_duplicate d k st ! p) = generation (st ! p)
   \<and> id_number (mark_duplicate d k st ! p) = id_number (st ! p)"
  by (cases "p = d"; cases "d < length st") (simp_all add: mark_duplicate_def list_update_beyond)

lemma apply_marks_ids:
  "generation (apply_marks ms st ! p) = generation (st ! p)
   \<and> id_number (apply_marks ms st ! p) = id_number (st ! p)"
  by (induction ms arbitrary: st) (auto simp: mark_duplicate_ids)

lemma apply_marks_untouched:
  "p \<notin> fst ` set ms \<Longrightarrow> apply_marks ms st ! p = st ! p"
  by (induction ms arbitrary: st) (auto simp: mark_duplicate_other)

lemma mark_duplicate_keeps_Duplicate:
  "p < length st \<Longrightarrow> status (st ! p) = Duplicate \<Longrightarrow> status (mark_duplicate d k st ! p) = Duplicate"
  by (cases "p = d") (simp_all add: mark_duplicate_def)

lemma apply_marks_keeps_Duplicate:
  "p < length st \<Longrightarrow> status (st ! p) = Duplicate \<Longrightarrow> status (apply_marks ms st ! p) = Duplicate"
  by (induction ms arbitrary: st) (auto simp: mark_duplicate_keeps_Duplicate)

lemma apply_marks_marked:
  "(d, k) \<in> set ms \<Longrightarrow> d < length st \<Longrightarrow> status (apply_marks ms st ! d) = Duplicate"
proof (induction ms arbitrary: st)
  case Nil
  then show ?case by simp
next
  case (Cons m ms)
  obtain d' k' where m: "m = (d', k')" by (cases m)
  show ?case
  proof (cases "m = (d, k)")
    case True
    have "status (mark_duplicate d k st ! d) = Duplicate"
      using Cons.prems(2) by (simp add: mark_duplicate_same)
    then show ?thesis
      using True Cons.prems(2) by (simp add: apply_marks_keeps_Duplicate)
  next
    case False
    then have "(d, k) \<in> set ms" using Cons.prems(1) by simp
    then show ?thesis using Cons.IH[of "mark_duplicate d' k' st"] Cons.prems(2) m by simp
  qed
qed

text \<open>When every marking of position d names the same k, the duplicate string of d is the GxI of k.\<close>

lemma apply_marks_string:
  assumes "(d, k) \<in> set ms" "d < length st" "\<forall>k'. (d, k') \<in> set ms \<longrightarrow> k' = k"
  shows "duplicate_string (apply_marks ms st ! d) = GxI (generation (st ! k)) (id_number (st ! k))"
  using assms
proof (induction ms arbitrary: st rule: rev_induct)
  case Nil
  then show ?case by simp
next
  case (snoc m ms)
  obtain d' k' where m: "m = (d', k')" by (cases m)
  show ?case
  proof (cases "d' = d")
    case True
    then have k': "k' = k" using snoc.prems(3) m by simp
    have "apply_marks (ms @ [m]) st = mark_duplicate d k (apply_marks ms st)"
      using m True k' by simp
    then show ?thesis
      using snoc.prems(2) by (simp add: mark_duplicate_same apply_marks_ids)
  next
    case False
    then have in_ms: "(d, k) \<in> set ms" using snoc.prems(1) m by auto
    have "apply_marks (ms @ [m]) st ! d = apply_marks ms st ! d"
      using m False by (simp add: mark_duplicate_other)
    then show ?thesis using snoc.IH[OF in_ms snoc.prems(2)] snoc.prems(3) by simp
  qed
qed

lemma found_matching_same_pair:
  assumes "found_matching cfg snap i j" "found_matching cfg snap i' j'"
    and "{higher snap i' j', lower snap i' j'} = {higher snap i j, lower snap i j}"
  shows "i' = i \<and> j' = j"
proof -
  have "i < j" "i' < j'" using assms(1,2) by (simp_all add: found_matching_def)
  moreover have "{i', j'} = {i, j}" using assms(3) by (simp only: higher_lower(2))
  ultimately show ?thesis by (auto simp: doubleton_eq_iff)
qed

text \<open>
  What holds of every pair \<open>i < j\<close> that the scan finds matching.  The scan marks the one
  with the higher enthalpy (\<open>j\<close> when the enthalpies tie) as a duplicate of the other, and
  does not mark the other as a duplicate of it; the scan is the sequence of its markings,
  each of which changes the marked candidate alone; the marked candidate is \<^verbatim>\<open>Duplicate\<close>
  when the scan ends; once \<open>i\<close> is marked no later \<open>j'\<close> is compared with \<open>i\<close> in that
  round.  The other candidate was \<^verbatim>\<open>Optimized\<close> before the scan.  When no marking of the
  scan marks it, it is left as it was, so that exactly one of the two is \<^verbatim>\<open>Duplicate\<close> when
  the scan ends.  When every marking of the marked candidate names the other one, its
  duplicate string is the \<open>GxI\<close> of the other when the scan ends.
\<close>

lemma duplicate_scan_found_pair:
  assumes fm: "found_matching cfg (take_snapshot lib st) i j"
  shows "(higher (take_snapshot lib st) i j, lower (take_snapshot lib st) i j)
            \<in> set (scan_marks lib cfg st)
       \<and> (lower (take_snapshot lib st) i j, higher (take_snapshot lib st) i j)
            \<notin> set (scan_marks lib cfg st)
       \<and> scan_for_duplicates lib cfg st = apply_marks (scan_marks lib cfg st) st
       \<and> status (scan_for_duplicates lib cfg st ! higher (take_snapshot lib st) i j) = Duplicate
       \<and> (higher (take_snapshot lib st) i j = i \<longrightarrow>
            (\<forall>j'. j < j' \<longrightarrow> \<not> found_matching cfg (take_snapshot lib st) i j'))
       \<and> status (st ! lower (take_snapshot lib st) i j) = Optimized
       \<and> (lower (take_snapshot lib st) i j \<notin> fst ` set (scan_marks lib cfg st) \<longrightarrow>
            scan_for_duplicates lib cfg st ! lower (take_snapshot lib st) i j
              = st ! lower (take_snapshot lib st) i j
            \<and> status (scan_for_duplicates lib cfg st ! lower (take_snapshot lib st) i j)
              = Optimized)
       \<and> ((\<forall>k'. (higher (take_snapshot lib st) i j, k') \<in> set (scan_marks lib cfg st)
                \<longrightarrow> k' = lower (take_snapshot lib st) i j) \<longrightarrow>
            duplicate_string
                (scan_for_duplicates lib cfg st ! higher (take_snapshot lib st) i j)
              = GxI (generation (st ! lower (take_snapshot lib st) i j))
                    (id_number (st ! lower (take_snapshot lib st) i j)))"
proof -
  define snap where "snap = take_snapshot lib st"
  define d where "d = higher snap i j"
  define k where "k = lower snap i j"
  define ms where "ms = scan_marks lib cfg st"
  note fm' = fm[folded snap_def]
  have ij: "i < j" "j < length st" and m: "matching cfg snap i j"
    using fm' by (simp_all add: found_matching_def snap_def take_snapshot_def)
  have dk: "d \<noteq> k" "{d, k} = {i, j}"
    using higher_lower(1)[OF ij(1), of snap] higher_lower(2)[of snap i j]
    by (simp_all add: d_def k_def)
  have d_len: "d < length st" and k_len: "k < length st"
    using ij by (auto simp: d_def k_def higher_def lower_def)
  have in_ms: "(d, k) \<in> set ms"
    unfolding ms_def scan_marks_iff using fm' by (auto simp: d_def k_def snap_def)
  have marks: "i' = i \<and> j' = j"
    if "found_matching cfg snap i' j'" "{higher snap i' j', lower snap i' j'} = {d, k}" for i' j'
    using found_matching_same_pair[OF fm' that(1)] that(2) by (simp add: d_def k_def)
  have not_rev: "(k, d) \<notin> set ms"
  proof
    assume "(k, d) \<in> set ms"
    then obtain i' j' where f: "found_matching cfg snap i' j'"
        and e: "k = higher snap i' j'" "d = lower snap i' j'"
      unfolding ms_def scan_marks_iff snap_def by blast
    have "i' = i \<and> j' = j" using marks[OF f] e by auto
    then show False using e dk(1) by (simp add: d_def)
  qed
  have fold: "scan_for_duplicates lib cfg st = apply_marks ms st"
    unfolding ms_def by (rule scan_for_duplicates_marks)
  have dup: "status (scan_for_duplicates lib cfg st ! d) = Duplicate"
    unfolding fold by (rule apply_marks_marked[OF in_ms d_len])
  have brk: "\<not> found_matching cfg snap i j'" if "d = i" "j < j'" for j'
  proof
    assume f: "found_matching cfg snap i j'"
    have gt: "fp_enthalpy (fps snap ! i) > fp_enthalpy (fps snap ! j)"
      using that(1) ij(1) by (auto simp: d_def higher_def split: if_splits)
    have "j \<in> {i + 1 ..< j'}" using ij(1) that(2) by simp
    then show False using f m gt unfolding found_matching_def by blast
  qed
  have "states snap ! k = Optimized"
    using m by (auto simp: k_def lower_def matching_def)
  then have k_opt: "status (st ! k) = Optimized"
    using k_len by (simp add: snap_def take_snapshot_def)
  have keep: "scan_for_duplicates lib cfg st ! k = st ! k
      \<and> status (scan_for_duplicates lib cfg st ! k) = Optimized"
    if "k \<notin> fst ` set ms"
  proof -
    have "scan_for_duplicates lib cfg st ! k = st ! k"
      unfolding fold using that by (rule apply_marks_untouched)
    then show ?thesis using k_opt by simp
  qed
  have str: "duplicate_string (scan_for_duplicates lib cfg st ! d)
          = GxI (generation (st ! k)) (id_number (st ! k))"
    if "\<forall>k'. (d, k') \<in> set ms \<longrightarrow> k' = k"
    unfolding fold using that by (intro apply_marks_string[OF in_ms d_len])
  show ?thesis
    using in_ms not_rev fold dup brk k_opt keep str
    unfolding d_def k_def ms_def snap_def by blast
qed

text \<open>Scenario S4: the candidate with enthalpy \<open>-10.00\<close> becomes a duplicate of the other
  one, \<open>1x2\<close>, which stays as it was.  In the store of three candidates of which each is
  within the tolerances of the next only, the pair \<open>(0, 1)\<close> ends with candidate 1 a
  duplicate of candidate 0, \<open>1x1\<close>, and candidate 0 as it was.\<close>

lemma duplicate_scan_found_pair_witness:
  "found_matching sample_settings (take_snapshot box_library s4_store) 0 1
   \<and> status (scan_for_duplicates box_library sample_settings s4_store ! 0) = Duplicate
   \<and> duplicate_string (scan_for_duplicates box_library sample_settings s4_store ! 0) = ''1x2''
   \<and> scan_for_duplicates box_library sample_settings s4_store ! 1 = s4_store ! 1
   \<and> status (scan_for_duplicates box_library sample_settings s4_store ! 1) = Optimized
   \<and> found_matching chain_settings (take_snapshot box_library chain_store) 0 1
   \<and> status (scan_for_duplicates box_library chain_settings chain_store ! 1) = Duplicate
   \<and> duplicate_string (scan_for_duplicates box_library chain_settings chain_store ! 1) = ''1x1''
   \<and> scan_for_duplicates box_library chain_settings chain_store ! 0 = chain_store ! 0
   \<and> status (scan_for_duplicates box_library chain_settings chain_store ! 0) = Optimized"
proof -
  have found: "found_matching sample_settings (take_snapshot box_library s4_store) 0 1"
    by code_simp
  have h: "higher (take_snapshot box_library s4_store) 0 1 = 0"
          "lower (take_snapshot box_library s4_store) 0 1 = 1"
    by code_simp+
  have g: "GxI (generation (s4_store ! 1)) (id_number (s4_store ! 1)) = ''1x2''"
    by code_simp
  have ms: "scan_marks box_library sample_settings s4_store = [(0, 1)]"
    by code_simp
  note T = duplicate_scan_found_pair[OF found, unfolded h g ms]
  have p1: "(1 :: nat) \<notin> fst ` set [(0 :: nat, 1 :: nat)]" by simp
  have p2: "\<forall>k'. (0 :: nat, k') \<in> set [(0 :: nat, 1 :: nat)] \<longrightarrow> k' = 1" by simp
  have dup: "status (scan_for_duplicates box_library sample_settings s4_store ! 0) = Duplicate"
    using T by blast
  have keep: "scan_for_duplicates box_library sample_settings s4_store ! 1 = s4_store ! 1
     \<and> status (scan_for_duplicates box_library sample_settings s4_store ! 1) = Optimized"
    using T p1 by blast
  have str: "duplicate_string (scan_for_duplicates box_library sample_settings s4_store ! 0)
      = ''1x2''"
    using T p2 by blast
  have found': "found_matching chain_settings (take_snapshot box_library chain_store) 0 1"
    by code_simp
  have h': "higher (take_snapshot box_library chain_store) 0 1 = 1"
           "lower (take_snapshot box_library chain_store) 0 1 = 0"
    by code_simp+
  have g': "GxI (generation (chain_store ! 0)) (id_number (chain_store ! 0)) = ''1x1''"
    by code_simp
  have ms': "scan_marks box_library chain_settings chain_store = [(1, 0), (2, 1)]"
    by code_simp
  note T' = duplicate_scan_found_pair[OF found', unfolded h' g' ms']
  have p1': "(0 :: nat) \<notin> fst ` set [(1 :: nat, 0 :: nat), (2, 1)]" by simp
  have p2': "\<forall>k'. (1 :: nat, k') \<in> set [(1 :: nat, 0 :: nat), (2, 1)] \<longrightarrow> k' = 0" by simp
  have dup': "status (scan_for_duplicates box_library chain_settings chain_store ! 1) = Duplicate"
    using T' by blast
  have keep': "scan_for_duplicates box_library chain_settings chain_store ! 0 = chain_store ! 0
     \<and> status (scan_for_duplicates box_library chain_settings chain_store ! 0) = Optimized"
    using T' p1' by blast
  have str': "duplicate_string (scan_for_duplicates box_library chain_settings chain_store ! 1)
      = ''1x1''"
    using T' p2' by blast
  show ?thesis using found dup keep str found' dup' keep' str' by blast
qed

text \<open>
  C1.  The claim: of every pair \<open>i < j\<close> that the scan finds matching exactly one candidate
  is marked \<^verbatim>\<open>Duplicate\<close>, the one with the higher enthalpy, its duplicate string is the
  \<open>GxI\<close> of the other, and a candidate that has been marked is not compared any more.  The
  scan reads the states from the copy it made before its loops and never updates the copy
  when it marks a candidate, so a candidate that it has marked still counts as
  \<^verbatim>\<open>Optimized\<close> in every later test (the comment at the \<^verbatim>\<open>break\<close> says that a candidate
  that is now a duplicate is not compared any more; the \<^verbatim>\<open>break\<close> ends one round of \<open>i\<close>
  only).

  Three candidates with enthalpies \<open>-10\<close>, \<open>-9.995\<close>, \<open>-9.99\<close>, equal volumes and tolerance
  \<open>0.006\<close>: the first round marks candidate 1 a duplicate of candidate 0; the second round
  compares candidate 1 again and marks candidate 2 a duplicate of it, although candidates
  0 and 2 do not match.  Both members of the matching pair \<open>(1, 2)\<close> are \<^verbatim>\<open>Duplicate\<close>
  when the scan ends, and candidate 2 is a duplicate of the duplicate \<open>1x2\<close>.

  Three candidates of one enthalpy and one volume: the first round marks candidates 1 and
  2 duplicates of candidate 0, \<open>1x1\<close>; the second round compares the marked candidate 1
  with the marked candidate 2, marks candidate 2 once more and overwrites its duplicate
  string with \<open>1x2\<close>.
\<close>

theorem checkForDuplicates_compares_marked_candidates:
  "map status chain_store = [Optimized, Optimized, Optimized]
   \<and> matching chain_settings (take_snapshot box_library chain_store) 0 1
   \<and> matching chain_settings (take_snapshot box_library chain_store) 1 2
   \<and> \<not> matching chain_settings (take_snapshot box_library chain_store) 0 2
   \<and> scan_marks box_library chain_settings chain_store = [(1, 0), (2, 1)]
   \<and> map status
        (tracker (checkForDuplicates_impl box_library chain_settings
                    (sample_engine\<lparr>tracker := chain_store\<rparr>)))
      = [Optimized, Duplicate, Duplicate]
   \<and> map duplicate_string
        (tracker (checkForDuplicates_impl box_library chain_settings
                    (sample_engine\<lparr>tracker := chain_store\<rparr>)))
      = ['''', ''1x1'', ''1x2'']
   \<and> matching sample_settings (take_snapshot box_library tie_store) 0 2
   \<and> scan_marks box_library sample_settings tie_store = [(1, 0), (2, 0), (2, 1)]
   \<and> map status
        (tracker (checkForDuplicates_impl box_library sample_settings
                    (sample_engine\<lparr>tracker := tie_store\<rparr>)))
      = [Optimized, Duplicate, Duplicate]
   \<and> map duplicate_string
        (tracker (checkForDuplicates_impl box_library sample_settings
                    (sample_engine\<lparr>tracker := tie_store\<rparr>)))
      = ['''', ''1x1'', ''1x2'']"
  by code_simp


section \<open>Properties of the scheduling of the scan\<close>

lemma tracker_append_tracker: "tracker (tracker_append x e) = tracker e @ [x]"
  by (simp add: tracker_append_def checkForDuplicates_def)

text \<open>
  C7, as amended.  Every append to the store triggers the slot.  The trigger is dropped
  while the session is starting (\<^verbatim>\<open>isStarting\<close>), and only then: otherwise one more scan is
  handed to the thread pool, however many are waiting or running there.
\<close>

theorem append_schedules_scan:
  "(isStarting e \<longrightarrow> scheduled (tracker_append x e) = scheduled e)
   \<and> (\<not> isStarting e \<longrightarrow>
        scheduled (tracker_append x e) = scheduled e @ [CheckForDuplicatesTask]
        \<and> scans_pending (tracker_append x e) = scans_pending e + 1)"
  by (simp add: tracker_append_def checkForDuplicates_def scans_pending_def)

theorem append_schedules_scan_witness:
  "scans_pending
     (tracker_append (sample_xtal 1 1 0 Optimized 225 (- 10) (50, 1, 1))
        (sample_engine\<lparr>scheduled := [CheckForDuplicatesTask]\<rparr>)) = 2
   \<and> scheduled
     (tracker_append (sample_xtal 1 1 0 Optimized 225 (- 10) (50, 1, 1))
        (sample_engine\<lparr>isStarting := True\<rparr>)) = []"
  using append_schedules_scan
      [of "sample_engine\<lparr>scheduled := [CheckForDuplicatesTask]\<rparr>"
          "sample_xtal 1 1 0 Optimized 225 (- 10) (50, 1, 1)"]
    append_schedules_scan
      [of "sample_engine\<lparr>isStarting := True\<rparr>"
          "sample_xtal 1 1 0 Optimized 225 (- 10) (50, 1, 1)"]
  by (simp add: sample_engine_def scans_pending_def)

text \<open>
  C7 as stated fails: with one scan waiting in the pool and the session not starting, an
  append leaves two scans waiting.
\<close>

theorem append_while_scan_pending_counterexample:
  "scans_pending (sample_engine\<lparr>scheduled := [CheckForDuplicatesTask]\<rparr>) = 1
   \<and> \<not> isStarting (sample_engine\<lparr>scheduled := [CheckForDuplicatesTask]\<rparr>)
   \<and> scans_pending
       (tracker_append (sample_xtal 1 1 0 Optimized 225 (- 10) (50, 1, 1))
          (sample_engine\<lparr>scheduled := [CheckForDuplicatesTask]\<rparr>)) = 2"
  by (simp add: tracker_append_def checkForDuplicates_def scans_pending_def sample_engine_def)

section \<open>Properties of the validation\<close>

lemma c_fmod_nonneg: "0 \<le> V \<Longrightarrow> \<bar>c_fmod V 1\<bar> = frac V"
  by (simp add: c_fmod_def trunc_toward_zero_def frac_def)

lemma within_unless_pinned_iff:
  "within_unless_pinned v lo hi \<longleftrightarrow> \<not> out_of_bounds (pinned lo hi) v lo hi"
  by (auto simp: out_of_bounds_def within_unless_pinned_def)

lemma realistic_iff: "(\<not> is_nan_or_inf lib v \<and> tiny \<le> \<bar>v\<bar>) \<longleftrightarrow> \<not> unrealistic lib v"
  by (auto simp: unrealistic_def)

text \<open>The verdict of \<open>check_lattice\<close> is that of the remaining checks of the
  specification.\<close>

lemma check_lattice_verdict:
  "fst (check_lattice lib cfg y) = remaining_checks_pass lib cfg y"
proof -
  define l where "l = lim cfg"
  define g1 where "g1 = rescaleCell lib (pinned (a_min l) (a_max l)) (pinned (b_min l) (b_max l))
                 (pinned (c_min l) (c_max l)) (pinned (alpha_min l) (alpha_max l))
                 (pinned (beta_min l) (beta_max l)) (pinned (gamma_min l) (gamma_max l))
                 (geom y)"
  define g2 where "g2 = fixAngles lib g1"
  define U where "U = (unrealistic lib (getA lib g1) \<or> unrealistic lib (getB lib g1)
            \<or> unrealistic lib (getC lib g1) \<or> unrealistic lib (getAlpha lib g1)
            \<or> unrealistic lib (getBeta lib g1) \<or> unrealistic lib (getGamma lib g1))"
  define OB where "OB = (out_of_bounds (pinned (a_min l) (a_max l)) (getA lib g2) (a_min l) (a_max l)
                 \<or> out_of_bounds (pinned (b_min l) (b_max l)) (getB lib g2) (b_min l) (b_max l)
                 \<or> out_of_bounds (pinned (c_min l) (c_max l)) (getC lib g2) (c_min l) (c_max l)
                 \<or> out_of_bounds (pinned (alpha_min l) (alpha_max l)) (getAlpha lib g2)
                      (alpha_min l) (alpha_max l)
                 \<or> out_of_bounds (pinned (beta_min l) (beta_max l)) (getBeta lib g2)
                      (beta_min l) (beta_max l)
                 \<or> out_of_bounds (pinned (gamma_min l) (gamma_max l)) (getGamma lib g2)
                      (gamma_min l) (gamma_max l))"
  define D where "D = (using_shortestInteratomicDistance cfg \<longrightarrow>
              (case getShortestInteratomicDistance lib g2 of
                 Some distance \<Rightarrow> shortestInteratomicDistance cfg \<le> distance
               | None \<Rightarrow> True))"
  have cl: "fst (check_lattice lib cfg y) = (if U then False else if OB then False else D)"
    unfolding check_lattice_def Let_def l_def[symmetric] g1_def[symmetric]
    by (simp add: g2_def[symmetric] U_def[symmetric] OB_def[symmetric] D_def not_less
          split: option.splits)
  have rp: "remaining_checks_pass lib cfg y = (\<not> U \<and> \<not> OB \<and> D)"
    unfolding remaining_checks_pass_def Let_def l_def[symmetric] g1_def[symmetric]
      g2_def[symmetric] D_def[symmetric] within_unless_pinned_iff
    by (simp add: realistic_iff U_def OB_def)
  show ?thesis unfolding cl rp by simp
qed

text \<open>
  C4.  In range mode a candidate whose volume \<open>V\<close> lies outside \<open>[vol_min, vol_max]\<close> is
  not rejected for that: \<^verbatim>\<open>checkXtal\<close> sets its volume to
  \<open>|fmod(V, 1)| \<cdot> (vol_max - vol_min) + vol_min\<close>, or to the midpoint of the range when that
  number is below \<open>1e-8\<close> in absolute value, and goes on with the remaining checks on the
  rescaled candidate.  For a volume that is not negative \<open>|fmod(V, 1)|\<close> is the fractional
  part of \<open>V\<close>.  In range mode a volume inside the range is left alone; in fixed mode the
  volume is set to \<^verbatim>\<open>vol_fixed\<close> whatever it was.  The verdict on the rescaled candidate
  is that of the remaining checks, \<^const>\<open>remaining_checks_pass\<close>: realistic cell
  parameters, every parameter that is not pinned within its limits, and the shortest
  interatomic distance when that limit is in use.  So a candidate whose volume was salvaged
  is still rejected when one of these fails.
\<close>

theorem checkXtal_volume:
  assumes "status x \<noteq> Empty"
  shows "(\<not> using_fixed_volume cfg
          \<and> (getVolume lib (geom x) < vol_min cfg \<or> getVolume lib (geom x) > vol_max cfg) \<longrightarrow>
            checkXtal lib cfg (Some x) =
              map_prod id Some (check_lattice lib cfg
                (x\<lparr>geom := setVolume lib (salvaged_volume cfg (getVolume lib (geom x))) (geom x)\<rparr>)))
       \<and> (\<not> using_fixed_volume cfg
          \<and> vol_min cfg \<le> getVolume lib (geom x) \<and> getVolume lib (geom x) \<le> vol_max cfg \<longrightarrow>
            checkXtal lib cfg (Some x) = map_prod id Some (check_lattice lib cfg x))
       \<and> (using_fixed_volume cfg \<longrightarrow>
            checkXtal lib cfg (Some x) =
              map_prod id Some (check_lattice lib cfg
                (x\<lparr>geom := setVolume lib (vol_fixed cfg) (geom x)\<rparr>)))
       \<and> salvaged_volume cfg V =
           (if \<bar>\<bar>c_fmod V 1\<bar> * (vol_max cfg - vol_min cfg) + vol_min cfg\<bar> < 1 / 10 ^ 8
            then (vol_max cfg - vol_min cfg) / 2 + vol_min cfg
            else \<bar>c_fmod V 1\<bar> * (vol_max cfg - vol_min cfg) + vol_min cfg)
       \<and> (0 \<le> V \<longrightarrow> \<bar>c_fmod V 1\<bar> = frac V)
       \<and> (\<not> using_fixed_volume cfg
          \<and> (getVolume lib (geom x) < vol_min cfg \<or> getVolume lib (geom x) > vol_max cfg) \<longrightarrow>
            fst (checkXtal lib cfg (Some x)) =
              remaining_checks_pass lib cfg
                (x\<lparr>geom := setVolume lib (salvaged_volume cfg (getVolume lib (geom x))) (geom x)\<rparr>))
       \<and> fst (check_lattice lib cfg y) = remaining_checks_pass lib cfg y"
proof -
  have 1: "checkXtal lib cfg (Some x) = map_prod id Some (check_lattice lib cfg (check_volume lib cfg x))"
    using assms by (simp add: checkXtal_def split: prod.splits)
  have 2: "salvaged_volume cfg V =
           (if \<bar>\<bar>c_fmod V 1\<bar> * (vol_max cfg - vol_min cfg) + vol_min cfg\<bar> < 1 / 10 ^ 8
            then (vol_max cfg - vol_min cfg) / 2 + vol_min cfg
            else \<bar>c_fmod V 1\<bar> * (vol_max cfg - vol_min cfg) + vol_min cfg)"
    by (simp add: salvaged_volume_def Let_def tiny_def)
  have 3: "fst (map_prod id Some (check_lattice lib cfg z)) = remaining_checks_pass lib cfg z" for z
    by (simp add: check_lattice_verdict)
  have 4: "check_volume lib cfg x =
      x\<lparr>geom := setVolume lib (salvaged_volume cfg (getVolume lib (geom x))) (geom x)\<rparr>"
    if "\<not> using_fixed_volume cfg
          \<and> (getVolume lib (geom x) < vol_min cfg \<or> getVolume lib (geom x) > vol_max cfg)"
    using that by (simp add: check_volume_def)
  have 5: "check_volume lib cfg x = x"
    if "\<not> using_fixed_volume cfg
          \<and> vol_min cfg \<le> getVolume lib (geom x) \<and> getVolume lib (geom x) \<le> vol_max cfg"
    using that by (simp add: check_volume_def)
  have 6: "check_volume lib cfg x = x\<lparr>geom := setVolume lib (vol_fixed cfg) (geom x)\<rparr>"
    if "using_fixed_volume cfg"
    using that by (simp add: check_volume_def)
  show ?thesis
    unfolding 1 using 2 3 4 5 6 c_fmod_nonneg[of V] check_lattice_verdict[of lib cfg y]
    by presburger
qed

text \<open>A box of volume 120.5 is rescaled to volume 75 and accepted; a cube inside the
  range is accepted as it is; in fixed mode the cube is rescaled to the fixed volume.  A box
  with edges 1.5, 4, 4 has volume 24, below the range; it is rescaled to volume 30, which
  makes its first edge 1.875, below the least length 3 of the limits, and it is rejected.\<close>

theorem checkXtal_volume_witness:
  "checkXtal box_library sample_settings (Some salvage_sample)
     = (True, Some (sample_xtal 1 1 0 WaitingForOptimization 0 0 (75 / 16, 4, 4)))
   \<and> getVolume box_library (geom salvage_sample) = 241 / 2
   \<and> salvaged_volume sample_settings (241 / 2) = 75
   \<and> \<bar>c_fmod (241 / 2) 1\<bar> = 1 / 2
   \<and> checkXtal box_library sample_settings (Some cube_sample) = (True, Some cube_sample)
   \<and> checkXtal box_library (sample_settings\<lparr>using_fixed_volume := True, vol_fixed := 80\<rparr>)
        (Some cube_sample)
     = (True, Some (sample_xtal 1 2 1 WaitingForOptimization 0 0 (5, 4, 4)))
   \<and> getVolume box_library (geom thin_sample) = 24
   \<and> salvaged_volume sample_settings 24 = 30
   \<and> getA box_library (setVolume box_library 30 (geom thin_sample)) = 15 / 8
   \<and> \<not> fst (checkXtal box_library sample_settings (Some thin_sample))"
proof -
  have s1: "status salvage_sample \<noteq> Empty" and s2: "status cube_sample \<noteq> Empty"
    and s3: "status thin_sample \<noteq> Empty"
    by code_simp+
  note T1 = checkXtal_volume[OF s1, of sample_settings box_library "241 / 2" cube_sample]
  note T2 = checkXtal_volume[OF s2, of sample_settings box_library 0 cube_sample]
  note T3 = checkXtal_volume[OF s2,
      of "sample_settings\<lparr>using_fixed_volume := True, vol_fixed := 80\<rparr>" box_library 0
         cube_sample]
  note T4 = checkXtal_volume[OF s3, of sample_settings box_library 24 cube_sample]
  have h1: "\<not> using_fixed_volume sample_settings
      \<and> (getVolume box_library (geom salvage_sample) < vol_min sample_settings
         \<or> getVolume box_library (geom salvage_sample) > vol_max sample_settings)"
    by code_simp
  have h2: "\<not> using_fixed_volume sample_settings
      \<and> vol_min sample_settings \<le> getVolume box_library (geom cube_sample)
      \<and> getVolume box_library (geom cube_sample) \<le> vol_max sample_settings"
    by code_simp
  have h3: "using_fixed_volume (sample_settings\<lparr>using_fixed_volume := True, vol_fixed := 80\<rparr>)"
    by code_simp
  have h4: "(0 :: real) \<le> 241 / 2" by simp
  have h5: "\<not> using_fixed_volume sample_settings
      \<and> (getVolume box_library (geom thin_sample) < vol_min sample_settings
         \<or> getVolume box_library (geom thin_sample) > vol_max sample_settings)"
    by code_simp
  have c1: "checkXtal box_library sample_settings (Some salvage_sample) =
      map_prod id Some (check_lattice box_library sample_settings
        (salvage_sample\<lparr>geom := setVolume box_library
           (salvaged_volume sample_settings (getVolume box_library (geom salvage_sample)))
           (geom salvage_sample)\<rparr>))"
    using T1 h1 by blast
  have c2: "checkXtal box_library sample_settings (Some cube_sample) =
      map_prod id Some (check_lattice box_library sample_settings cube_sample)"
    using T2 h2 by blast
  have c3: "checkXtal box_library (sample_settings\<lparr>using_fixed_volume := True, vol_fixed := 80\<rparr>)
        (Some cube_sample) =
      map_prod id Some (check_lattice box_library
        (sample_settings\<lparr>using_fixed_volume := True, vol_fixed := 80\<rparr>)
        (cube_sample\<lparr>geom := setVolume box_library
           (vol_fixed (sample_settings\<lparr>using_fixed_volume := True, vol_fixed := 80\<rparr>))
           (geom cube_sample)\<rparr>))"
    using T3 h3 by blast
  have c4: "\<bar>c_fmod (241 / 2) 1\<bar> = frac (241 / 2 :: real)" using T1 h4 by blast
  have c5: "fst (checkXtal box_library sample_settings (Some thin_sample)) =
      remaining_checks_pass box_library sample_settings
        (thin_sample\<lparr>geom := setVolume box_library
           (salvaged_volume sample_settings (getVolume box_library (geom thin_sample)))
           (geom thin_sample)\<rparr>)"
    using T4 h5 by blast
  have e1: "map_prod id Some (check_lattice box_library sample_settings
        (salvage_sample\<lparr>geom := setVolume box_library
           (salvaged_volume sample_settings (getVolume box_library (geom salvage_sample)))
           (geom salvage_sample)\<rparr>))
     = (True, Some (sample_xtal 1 1 0 WaitingForOptimization 0 0 (75 / 16, 4, 4)))"
    by code_simp
  have e2: "map_prod id Some (check_lattice box_library sample_settings cube_sample)
     = (True, Some cube_sample)"
    by code_simp
  have e3: "map_prod id Some (check_lattice box_library
        (sample_settings\<lparr>using_fixed_volume := True, vol_fixed := 80\<rparr>)
        (cube_sample\<lparr>geom := setVolume box_library
           (vol_fixed (sample_settings\<lparr>using_fixed_volume := True, vol_fixed := 80\<rparr>))
           (geom cube_sample)\<rparr>))
     = (True, Some (sample_xtal 1 2 1 WaitingForOptimization 0 0 (5, 4, 4)))"
    by code_simp
  have e4: "getVolume box_library (geom salvage_sample) = 241 / 2"
     "salvaged_volume sample_settings (241 / 2) = 75"
     "getVolume box_library (geom thin_sample) = 24"
     "salvaged_volume sample_settings 24 = 30"
     "getA box_library (setVolume box_library 30 (geom thin_sample)) = 15 / 8"
    by code_simp+
  have e5: "frac (241 / 2 :: real) = 1 / 2"
    by (simp add: frac_def)
  have e6: "\<not> remaining_checks_pass box_library sample_settings
        (thin_sample\<lparr>geom := setVolume box_library
           (salvaged_volume sample_settings (getVolume box_library (geom thin_sample)))
           (geom thin_sample)\<rparr>)"
    by code_simp
  have r1: "checkXtal box_library sample_settings (Some salvage_sample)
     = (True, Some (sample_xtal 1 1 0 WaitingForOptimization 0 0 (75 / 16, 4, 4)))"
    by (simp only: c1 e1)
  have r2: "checkXtal box_library sample_settings (Some cube_sample) = (True, Some cube_sample)"
    by (simp only: c2 e2)
  have r3: "checkXtal box_library (sample_settings\<lparr>using_fixed_volume := True, vol_fixed := 80\<rparr>)
        (Some cube_sample)
     = (True, Some (sample_xtal 1 2 1 WaitingForOptimization 0 0 (5, 4, 4)))"
    by (simp only: c3 e3)
  have r4: "\<bar>c_fmod (241 / 2) 1\<bar> = (1 / 2 :: real)" by (simp only: c4 e5)
  have r5: "\<not> fst (checkXtal box_library sample_settings (Some thin_sample))"
    using c5 e6 by blast
  show ?thesis using r1 r2 r3 r4 r5 e4 by blast
qed

section \<open>Properties of the random replacement and of the breeding step\<close>

lemma random_until_valid_Suc:
  "random_until_valid (Suc fuel) rl lib cfg gen ident r =
     (case round_result rl lib cfg gen ident r of
        Some y \<Rightarrow> Some y
      | None \<Rightarrow> random_until_valid fuel rl lib cfg gen ident
                  (snd (generateRandomXtal rl lib cfg gen ident r)))"
  by (auto simp: round_result_def split_beta split: prod.splits option.splits bool.splits)

text \<open>The loop ends with the first round that passes, given the fuel to reach it.\<close>

lemma random_until_valid_first:
  "\<forall>i<k. round_result rl lib cfg gen ident (rng_after_rounds i rl lib cfg gen ident r) = None
   \<Longrightarrow> round_result rl lib cfg gen ident (rng_after_rounds k rl lib cfg gen ident r) = Some y
   \<Longrightarrow> k < fuel
   \<Longrightarrow> random_until_valid fuel rl lib cfg gen ident r = Some y"
proof (induction k arbitrary: fuel r)
  case 0
  then obtain f where "fuel = Suc f" by (cases fuel) auto
  then show ?case using 0 by (simp add: random_until_valid_Suc del: random_until_valid.simps)
next
  case (Suc k)
  then obtain f where f: "fuel = Suc f" "k < f" by (cases fuel) auto
  let ?r = "snd (generateRandomXtal rl lib cfg gen ident r)"
  have first: "round_result rl lib cfg gen ident r = None"
    using Suc.prems(1)[rule_format, of 0] by simp
  have "\<forall>i<k. round_result rl lib cfg gen ident (rng_after_rounds i rl lib cfg gen ident ?r) = None"
  proof (intro allI impI)
    fix i assume "i < k"
    then have "Suc i < Suc k" by simp
    from Suc.prems(1)[rule_format, OF this]
    show "round_result rl lib cfg gen ident (rng_after_rounds i rl lib cfg gen ident ?r) = None"
      by simp
  qed
  moreover have "round_result rl lib cfg gen ident (rng_after_rounds k rl lib cfg gen ident ?r) = Some y"
    using Suc.prems(2) by simp
  ultimately have "random_until_valid f rl lib cfg gen ident ?r = Some y"
    using f(2) by (rule Suc.IH)
  then show ?case unfolding f(1)
    using first by (simp add: random_until_valid_Suc del: random_until_valid.simps)
qed

lemma random_until_valid_sound:
  "random_until_valid fuel rl lib cfg gen ident r = Some (x, r') \<Longrightarrow>
   \<exists>r1. checkXtal lib cfg (fst (generateRandomXtal rl lib cfg gen ident r1)) = (True, Some x)
      \<and> r' = snd (generateRandomXtal rl lib cfg gen ident r1)"
proof (induction fuel arbitrary: r)
  case 0
  then show ?case by simp
next
  case (Suc fuel)
  show ?case
  proof (cases "round_result rl lib cfg gen ident r")
    case None
    then have "random_until_valid fuel rl lib cfg gen ident
             (snd (generateRandomXtal rl lib cfg gen ident r)) = Some (x, r')"
      using Suc.prems by (simp add: random_until_valid_Suc del: random_until_valid.simps)
    then show ?thesis by (rule Suc.IH)
  next
    case (Some y)
    then have y: "y = (x, r')"
      using Suc.prems by (simp add: random_until_valid_Suc del: random_until_valid.simps)
    have "checkXtal lib cfg (fst (generateRandomXtal rl lib cfg gen ident r)) = (True, Some x)
      \<and> r' = snd (generateRandomXtal rl lib cfg gen ident r)"
      using Some unfolding y round_result_def
      by (cases "generateRandomXtal rl lib cfg gen ident r";
          cases "checkXtal lib cfg (fst (generateRandomXtal rl lib cfg gen ident r))")
         (auto split: option.splits bool.splits)
    then show ?thesis by blast
  qed
qed

lemma generateRandomXtal_fields:
  "generateRandomXtal rl lib cfg gen ident r = (Some x, r') \<Longrightarrow>
   generation x = gen \<and> id_number x = ident \<and> parents x = ''Randomly generated''
   \<and> status x = WaitingForOptimization"
  by (auto simp: generateRandomXtal_def Let_def split_beta split: prod.splits option.splits)

lemma check_volume_fields: "check_volume lib cfg x = x\<lparr>geom := geom (check_volume lib cfg x)\<rparr>"
  by (simp add: check_volume_def)

lemma check_lattice_fields:
  "check_lattice lib cfg x = (ok, x') \<Longrightarrow> x' = x\<lparr>geom := geom x'\<rparr>"
  by (auto simp: check_lattice_def Let_def split: if_splits option.splits)

lemma checkXtal_fields:
  "checkXtal lib cfg (Some x) = (ok, Some x') \<Longrightarrow> x' = x\<lparr>geom := geom x'\<rparr>"
proof -
  assume a: "checkXtal lib cfg (Some x) = (ok, Some x')"
  show ?thesis
  proof (cases "status x = Empty")
    case True then show ?thesis using a by (simp add: checkXtal_def)
  next
    case False
    then have "check_lattice lib cfg (check_volume lib cfg x) = (ok, x')"
      using a by (simp add: checkXtal_def split: prod.splits)
    from check_lattice_fields[OF this] have "x' = (check_volume lib cfg x)\<lparr>geom := geom x'\<rparr>" .
    then show ?thesis using check_volume_fields[of lib cfg x]
      by (metis xtal.surjective xtal.update_convs(17))
  qed
qed

lemma checked_random_fields:
  assumes "checkXtal lib cfg (fst (generateRandomXtal rl lib cfg gen ident r1)) = (True, Some x)"
  shows "generation x = gen \<and> id_number x = ident \<and> parents x = ''Randomly generated''
         \<and> status x = WaitingForOptimization"
proof -
  obtain p r2 where g: "generateRandomXtal rl lib cfg gen ident r1 = (p, r2)"
    by (cases "generateRandomXtal rl lib cfg gen ident r1")
  with assms have c: "checkXtal lib cfg p = (True, Some x)" by simp
  then obtain xg where p: "p = Some xg" by (cases p) (simp_all add: checkXtal_def)
  from checkXtal_fields[OF c[unfolded p]] have x: "x = xg\<lparr>geom := geom x\<rparr>" .
  from generateRandomXtal_fields[OF g[unfolded p]]
  have "generation xg = gen \<and> id_number xg = ident \<and> parents xg = ''Randomly generated''
         \<and> status xg = WaitingForOptimization" .
  then show ?thesis by (subst x, subst (2) x, subst (3) x, subst (4) x) simp
qed

lemma initializeAndAddXtal_tracker:
  "tracker (initializeAndAddXtal lib cfg x gen prnts e) =
     tracker e @
       [x\<lparr>id_number := next_id gen (tracker e) 1, generation := gen, parents := prnts,
          file_name := filePath e @ ''/'' @ sprintf_05d gen @ ''x''
                         @ sprintf_05d (next_id gen (tracker e) 1) @ ''/'',
          rempath_of := rempath e @ ''/'' @ sprintf_05d gen @ ''x''
                         @ sprintf_05d (next_id gen (tracker e) 1) @ ''/'',
          current_step := 1,
          spacegroup := findSpaceGroup lib (tol_spg cfg) (geom x),
          index := int (length (tracker e))\<rparr>]"
  by (simp add: initializeAndAddXtal_def Let_def lockForNaming_def unlockForNaming_def
      tracker_append_def checkForDuplicates_def error_def)

lemma copy_over_parents:
  "parents (copy_over lib cfg x reason oldXtal) = (if reason = [] then ''Randomly generated''
                       else ''Randomly generated ('' @ reason @ '')'')"
  by (simp add: copy_over_def Let_def resetEnergy_def resetEnthalpy_def resetFailCount_def
        random_parents_def)

lemma copy_over_fields:
  "id_number (copy_over lib cfg x reason oldXtal) = id_number oldXtal"
  "generation (copy_over lib cfg x reason oldXtal) = generation oldXtal"
  "index (copy_over lib cfg x reason oldXtal) = index oldXtal"
  "fail_count (copy_over lib cfg x reason oldXtal) = 0"
  "current_step (copy_over lib cfg x reason oldXtal) = 1"
  "energy (copy_over lib cfg x reason oldXtal) = 0"
  "enthalpy (copy_over lib cfg x reason oldXtal) = 0"
  "\<not> has_enthalpy (copy_over lib cfg x reason oldXtal)"
  "PV (copy_over lib cfg x reason oldXtal) = 0"
  by (simp_all add: copy_over_def Let_def resetEnergy_def resetEnthalpy_def resetFailCount_def)

text \<open>
  C3.  When \<^verbatim>\<open>replaceWithRandom\<close> returns, the candidate it was given has the id, the
  generation and the index it had; its fail count is 0, its step is 1, energy, enthalpy
  and PV are reset, and \<^verbatim>\<open>parents\<close> reads ``Randomly generated'', followed by the reason in
  parentheses when there is one.  It returns with the candidate of the first round of its
  loop that passes \<^verbatim>\<open>checkXtal\<close>.
\<close>

theorem replaceWithRandom_preserves_identity:
  "(replaceWithRandom fuel rl lib cfg oldXtal reason r = Some (new, r') \<longrightarrow>
       id_number new = id_number oldXtal \<and> generation new = generation oldXtal
     \<and> index new = index oldXtal
     \<and> fail_count new = 0 \<and> current_step new = 1
     \<and> energy new = 0 \<and> enthalpy new = 0 \<and> \<not> has_enthalpy new \<and> PV new = 0
     \<and> parents new = (if reason = [] then ''Randomly generated''
                       else ''Randomly generated ('' @ reason @ '')''))
   \<and> ((\<forall>i<k. round_result rl lib cfg 0 0 (rng_after_rounds i rl lib cfg 0 0 r) = None)
        \<and> round_result rl lib cfg 0 0 (rng_after_rounds k rl lib cfg 0 0 r) = Some (x, r1)
        \<and> k < fuel \<longrightarrow>
       replaceWithRandom fuel rl lib cfg oldXtal reason r
         = Some (copy_over lib cfg x reason oldXtal, r1))"
proof (intro conjI impI)
  assume a: "(\<forall>i<k. round_result rl lib cfg 0 0 (rng_after_rounds i rl lib cfg 0 0 r) = None)
        \<and> round_result rl lib cfg 0 0 (rng_after_rounds k rl lib cfg 0 0 r) = Some (x, r1)
        \<and> k < fuel"
  have "random_until_valid fuel rl lib cfg 0 0 r = Some (x, r1)"
    using a by (intro random_until_valid_first[of k]) blast+
  then show "replaceWithRandom fuel rl lib cfg oldXtal reason r
      = Some (copy_over lib cfg x reason oldXtal, r1)"
    by (simp add: replaceWithRandom_def)
next
  assume a: "replaceWithRandom fuel rl lib cfg oldXtal reason r = Some (new, r')"
  then obtain x where new: "new = copy_over lib cfg x reason oldXtal"
    by (auto simp: replaceWithRandom_def split: option.splits)
  show "id_number new = id_number oldXtal" "generation new = generation oldXtal"
    "index new = index oldXtal" "fail_count new = 0" "current_step new = 1"
    "energy new = 0" "enthalpy new = 0" "\<not> has_enthalpy new" "PV new = 0"
    "parents new = (if reason = [] then ''Randomly generated''
                       else ''Randomly generated ('' @ reason @ '')'')"
    unfolding new by (simp_all only: copy_over_fields copy_over_parents simp_thms)
qed

text \<open>The first round fails to place an atom, the second passes: the candidate with
  three failures keeps id 7, generation 3 and index 5.\<close>

theorem replaceWithRandom_preserves_identity_witness:
  "\<exists>new r'. replaceWithRandom 2 sample_random box_library sample_settings failed_sample
                ''failed'' 0 = Some (new, r')
     \<and> id_number new = 7 \<and> generation new = 3 \<and> index new = 5
     \<and> fail_count new = 0 \<and> fail_count failed_sample = 3
     \<and> current_step new = 1 \<and> current_step failed_sample = 2
     \<and> energy new = 0 \<and> energy failed_sample = - 10
     \<and> PV new = 0 \<and> PV failed_sample = 5
     \<and> parents new = ''Randomly generated (failed)''"
proof -
  have r0: "round_result sample_random box_library sample_settings 0 0
      (rng_after_rounds 0 sample_random box_library sample_settings 0 0 0) = None"
    by code_simp
  have "round_result sample_random box_library sample_settings 0 0
      (rng_after_rounds 1 sample_random box_library sample_settings 0 0 0) \<noteq> None"
    by code_simp
  then obtain x r1 where r1: "round_result sample_random box_library sample_settings 0 0
      (rng_after_rounds 1 sample_random box_library sample_settings 0 0 0) = Some (x, r1)"
    by auto
  have h: "(\<forall>i<1. round_result sample_random box_library sample_settings 0 0
               (rng_after_rounds i sample_random box_library sample_settings 0 0 0) = None)
      \<and> round_result sample_random box_library sample_settings 0 0
               (rng_after_rounds 1 sample_random box_library sample_settings 0 0 0) = Some (x, r1)
      \<and> (1 :: nat) < 2"
    using r0 r1 by simp
  note T = replaceWithRandom_preserves_identity
    [of 2 sample_random box_library sample_settings failed_sample "''failed''" 0
        "copy_over box_library sample_settings x ''failed'' failed_sample" r1 1 x r1]
  have some: "replaceWithRandom 2 sample_random box_library sample_settings failed_sample
                ''failed'' 0
      = Some (copy_over box_library sample_settings x ''failed'' failed_sample, r1)"
    using T h by blast
  note F = T[THEN conjunct1, rule_format, OF some]
  have old: "id_number failed_sample = 7" "generation failed_sample = 3"
    "index failed_sample = 5" "fail_count failed_sample = 3" "current_step failed_sample = 2"
    "energy failed_sample = - 10" "PV failed_sample = 5"
    by code_simp+
  show ?thesis
    using some F unfolding old
    by (intro exI[of _ "copy_over box_library sample_settings x ''failed'' failed_sample"]
          exI[of _ r1]) simp
qed

text \<open>
  C9.  With fewer than three optimized candidates \<^verbatim>\<open>generateNewStructure_\<close> does not
  depend on the genetic operators or their settings: none is applied.  What it publishes
  through \<^verbatim>\<open>initializeAndAddXtal\<close> is a candidate that \<^verbatim>\<open>generateRandomXtal(1, 0)\<close> made
  and \<^verbatim>\<open>checkXtal\<close> passed, of generation 1: the candidate of the first round of the
  loop that passes.
\<close>

theorem generateNewStructure_few_optimized:
  assumes "length (getAllOptimizedStructures e) < 3"
  shows "generateNewStructure_impl fuel rl gl lib cfg ops e r
           = generateNewStructure_impl fuel rl gl' lib cfg ops' e r
    \<and> (generateNewStructure_impl fuel rl gl lib cfg ops e r = Inr (e', r') \<longrightarrow>
         (\<exists>x r1. checkXtal lib cfg (fst (generateRandomXtal rl lib cfg 1 0 r1)) = (True, Some x)
            \<and> generation x = 1 \<and> parents x = ''Randomly generated''
            \<and> e' = initializeAndAddXtal lib cfg x 1 (parents x) e
            \<and> butlast (tracker e') = tracker e
            \<and> geom (last (tracker e')) = geom x
            \<and> generation (last (tracker e')) = 1
            \<and> parents (last (tracker e')) = ''Randomly generated''
            \<and> status (last (tracker e')) = WaitingForOptimization))
    \<and> ((\<forall>i<k. round_result rl lib cfg 1 0
                  (rng_after_rounds i rl lib cfg 1 0 (INIT_RANDOM_GENERATOR rl r)) = None)
        \<and> round_result rl lib cfg 1 0
             (rng_after_rounds k rl lib cfg 1 0 (INIT_RANDOM_GENERATOR rl r)) = Some (xk, rk)
        \<and> k < fuel \<longrightarrow>
         generateNewStructure_impl fuel rl gl lib cfg ops e r
           = Inr (initializeAndAddXtal lib cfg xk 1 (parents xk) e, rk))"
proof -
  have eq: "generateNewStructure_impl fuel rl g lib cfg o' e r =
      (case random_until_valid fuel rl lib cfg 1 0 (INIT_RANDOM_GENERATOR rl r) of
         None \<Rightarrow> Inl OutOfFuel
       | Some (x, r') \<Rightarrow> Inr (initializeAndAddXtal lib cfg x 1 (parents x) e, r'))" for g o'
    using assms by (simp add: generateNewStructure_impl_def Let_def)
  have 1: "generateNewStructure_impl fuel rl gl lib cfg ops e r
           = generateNewStructure_impl fuel rl gl' lib cfg ops' e r"
    by (simp only: eq)
  have 2: "\<exists>x r1. checkXtal lib cfg (fst (generateRandomXtal rl lib cfg 1 0 r1)) = (True, Some x)
            \<and> generation x = 1 \<and> parents x = ''Randomly generated''
            \<and> e' = initializeAndAddXtal lib cfg x 1 (parents x) e
            \<and> butlast (tracker e') = tracker e
            \<and> geom (last (tracker e')) = geom x
            \<and> generation (last (tracker e')) = 1
            \<and> parents (last (tracker e')) = ''Randomly generated''
            \<and> status (last (tracker e')) = WaitingForOptimization"
    if a: "generateNewStructure_impl fuel rl gl lib cfg ops e r = Inr (e', r')"
  proof -
    from a obtain x where ruv: "random_until_valid fuel rl lib cfg 1 0 (INIT_RANDOM_GENERATOR rl r) = Some (x, r')"
      and e': "e' = initializeAndAddXtal lib cfg x 1 (parents x) e"
      unfolding eq by (auto split: option.splits)
    from random_until_valid_sound[OF ruv] obtain r1 where
      c: "checkXtal lib cfg (fst (generateRandomXtal rl lib cfg 1 0 r1)) = (True, Some x)" by blast
    note f = checked_random_fields[OF c]
    have "butlast (tracker e') = tracker e \<and> geom (last (tracker e')) = geom x
            \<and> generation (last (tracker e')) = 1
            \<and> parents (last (tracker e')) = ''Randomly generated''
            \<and> status (last (tracker e')) = WaitingForOptimization"
      unfolding e' initializeAndAddXtal_tracker using f by simp
    then show ?thesis using c f e' by blast
  qed
  have 3: "generateNewStructure_impl fuel rl gl lib cfg ops e r
           = Inr (initializeAndAddXtal lib cfg xk 1 (parents xk) e, rk)"
    if a: "(\<forall>i<k. round_result rl lib cfg 1 0
                  (rng_after_rounds i rl lib cfg 1 0 (INIT_RANDOM_GENERATOR rl r)) = None)
        \<and> round_result rl lib cfg 1 0
             (rng_after_rounds k rl lib cfg 1 0 (INIT_RANDOM_GENERATOR rl r)) = Some (xk, rk)
        \<and> k < fuel"
  proof -
    have "random_until_valid fuel rl lib cfg 1 0 (INIT_RANDOM_GENERATOR rl r) = Some (xk, rk)"
      using a by (intro random_until_valid_first[of k]) blast+
    then show ?thesis unfolding eq by simp
  qed
  show ?thesis using 1 2 3 by blast
qed

text \<open>With an empty store the first round fails to place an atom and the candidate of
  the second round is published.\<close>

theorem generateNewStructure_few_optimized_witness:
  "\<exists>e' r'. generateNewStructure_impl 2 sample_random sample_genetic box_library sample_settings
               sample_operators sample_engine 0 = Inr (e', r')
     \<and> butlast (tracker e') = []
     \<and> generation (last (tracker e')) = 1
     \<and> parents (last (tracker e')) = ''Randomly generated''
     \<and> status (last (tracker e')) = WaitingForOptimization"
proof -
  have few: "length (getAllOptimizedStructures sample_engine) < 3" by code_simp
  have r0: "round_result sample_random box_library sample_settings 1 0
      (rng_after_rounds 0 sample_random box_library sample_settings 1 0
         (INIT_RANDOM_GENERATOR sample_random 0)) = None"
    by code_simp
  have "round_result sample_random box_library sample_settings 1 0
      (rng_after_rounds 1 sample_random box_library sample_settings 1 0
         (INIT_RANDOM_GENERATOR sample_random 0)) \<noteq> None"
    by code_simp
  then obtain x r1 where r1: "round_result sample_random box_library sample_settings 1 0
      (rng_after_rounds 1 sample_random box_library sample_settings 1 0
         (INIT_RANDOM_GENERATOR sample_random 0)) = Some (x, r1)"
    by auto
  have h: "(\<forall>i<1. round_result sample_random box_library sample_settings 1 0
               (rng_after_rounds i sample_random box_library sample_settings 1 0
                  (INIT_RANDOM_GENERATOR sample_random 0)) = None)
      \<and> round_result sample_random box_library sample_settings 1 0
               (rng_after_rounds 1 sample_random box_library sample_settings 1 0
                  (INIT_RANDOM_GENERATOR sample_random 0)) = Some (x, r1)
      \<and> (1 :: nat) < 2"
    using r0 r1 by simp
  define e' where "e' = initializeAndAddXtal box_library sample_settings x 1 (parents x) sample_engine"
  note T = generateNewStructure_few_optimized[OF few,
      of 2 sample_random sample_genetic box_library sample_settings sample_operators 0
         sample_genetic sample_operators e' r1 1 x r1]
  have some: "generateNewStructure_impl 2 sample_random sample_genetic box_library
      sample_settings sample_operators sample_engine 0 = Inr (e', r1)"
    using T h unfolding e'_def by blast
  have F: "butlast (tracker e') = tracker sample_engine
     \<and> generation (last (tracker e')) = 1
     \<and> parents (last (tracker e')) = ''Randomly generated''
     \<and> status (last (tracker e')) = WaitingForOptimization"
    using T some by blast
  have t: "tracker sample_engine = []" by code_simp
  show ?thesis
    using some F unfolding t by (intro exI[of _ e'] exI[of _ r1]) simp
qed

section \<open>Properties of loading a session\<close>

text \<open>
  C5.  When the flag \<^verbatim>\<open>xtalopt/saveSuccessful\<close> of the session file is absent or false,
  \<^verbatim>\<open>load\<close> returns false; the store, the job-start tracker and the scheduled work are as
  before, and for a file that could be opened the error reported is that the file is
  incomplete, corrupt, or invalid.
\<close>

theorem load_refuses_unsuccessful_save:
  assumes "settings_of env filename ''xtalopt/saveSuccessful'' = None
         \<or> (\<exists>v. settings_of env filename ''xtalopt/saveSuccessful'' = Some v \<and> \<not> toBool v)"
  shows "\<exists>e'. load env cfg filename forceReadOnly e = Inr (False, e')
           \<and> tracker e' = tracker e
           \<and> job_start_tracker e' = job_start_tracker e
           \<and> scheduled e' = scheduled e
           \<and> (can_open env filename \<longrightarrow>
                log_error e' = log_error e @ [incomplete_message filename])"
proof -
  have invalid: "\<not> toBool (settings_value (settings_of env filename) ''xtalopt/saveSuccessful''
                           (QVBool False))"
    using assms by (auto simp: settings_value_def)
  show ?thesis
  proof (cases "can_open env filename")
    case True
    then show ?thesis using invalid
      by (simp add: load_def Let_def error_def)
  next
    case False
    then show ?thesis
      by (simp add: load_def Let_def error_def)
  qed
qed

text \<open>A session whose flag is absent and one whose flag is \<^verbatim>\<open>False\<close> are refused; the same
  session with the flag \<^verbatim>\<open>true\<close> is loaded and its candidate is in the store.\<close>

theorem load_refuses_unsuccessful_save_witness:
  "(\<exists>e'. load (sample_session None) sample_settings ''/tmp/run/xtalopt.state'' True sample_engine
            = Inr (False, e')
        \<and> tracker e' = []
        \<and> log_error e' = [incomplete_message ''/tmp/run/xtalopt.state''])
   \<and> (\<exists>e'. load (sample_session (Some (QVString ''False''))) sample_settings
              ''/tmp/run/xtalopt.state'' True sample_engine = Inr (False, e')
        \<and> tracker e' = []
        \<and> log_error e' = [incomplete_message ''/tmp/run/xtalopt.state''])
   \<and> (\<exists>e'. load (sample_session (Some (QVString ''true''))) sample_settings
              ''/tmp/run/xtalopt.state'' True sample_engine = Inr (True, e')
        \<and> length (tracker e') = 1)"
proof -
  have h1: "settings_of (sample_session None) ''/tmp/run/xtalopt.state''
              ''xtalopt/saveSuccessful'' = None
         \<or> (\<exists>v. settings_of (sample_session None) ''/tmp/run/xtalopt.state''
                  ''xtalopt/saveSuccessful'' = Some v \<and> \<not> toBool v)"
    by (simp add: sample_session_def)
  have f: "\<not> toBool (QVString ''False'')" by code_simp
  have h2: "settings_of (sample_session (Some (QVString ''False''))) ''/tmp/run/xtalopt.state''
              ''xtalopt/saveSuccessful'' = None
         \<or> (\<exists>v. settings_of (sample_session (Some (QVString ''False'')))
                  ''/tmp/run/xtalopt.state'' ''xtalopt/saveSuccessful'' = Some v \<and> \<not> toBool v)"
    using f by (simp add: sample_session_def)
  have o: "can_open (sample_session flag) ''/tmp/run/xtalopt.state''" for flag
    by (simp add: sample_session_def)
  have e: "tracker sample_engine = []" "log_error sample_engine = []"
    by (simp_all add: sample_engine_def)
  have 1: "\<exists>e'. load (sample_session None) sample_settings ''/tmp/run/xtalopt.state'' True
              sample_engine = Inr (False, e')
        \<and> tracker e' = []
        \<and> log_error e' = [incomplete_message ''/tmp/run/xtalopt.state'']"
    using load_refuses_unsuccessful_save[OF h1, of sample_settings True sample_engine] o e
    by auto
  have 2: "\<exists>e'. load (sample_session (Some (QVString ''False''))) sample_settings
              ''/tmp/run/xtalopt.state'' True sample_engine = Inr (False, e')
        \<and> tracker e' = []
        \<and> log_error e' = [incomplete_message ''/tmp/run/xtalopt.state'']"
    using load_refuses_unsuccessful_save[OF h2, of sample_settings True sample_engine] o e
    by auto
  have 3: "case load (sample_session (Some (QVString ''true''))) sample_settings
              ''/tmp/run/xtalopt.state'' True sample_engine of
             Inr (ok, e') \<Rightarrow> ok \<and> length (tracker e') = 1 | Inl f \<Rightarrow> False"
    by code_simp
  have 3: "\<exists>e'. load (sample_session (Some (QVString ''true''))) sample_settings
              ''/tmp/run/xtalopt.state'' True sample_engine = Inr (True, e')
        \<and> length (tracker e') = 1"
    using 3 by (auto split: sum.splits prod.splits)
  show ?thesis using 1 2 3 by blast
qed

section \<open>Properties of the template expansion\<close>

lemma replacement_unrecognized:
  "line \<notin> set xtal_keywords \<Longrightarrow> replacement lib txt line x = []"
  by (simp add: xtal_keywords_def replacement_def)

lemma interpret_line_unrecognized:
  "interpretKeyword_base txt seg x = seg \<Longrightarrow> seg \<notin> set xtal_keywords
   \<Longrightarrow> interpret_line lib txt x seg = seg"
  by (simp add: interpret_line_def interpretKeyword_def replacement_unrecognized)

lemma split_percent_nonempty: "split_percent t \<noteq> []"
  by (induction t) (auto split: list.splits)

lemma concat_split_percent: "concat (split_percent t) = filter (\<lambda>c. c \<noteq> CHR ''%'') t"
proof (induction t)
  case Nil
  then show ?case by simp
next
  case (Cons c t)
  obtain s ss where s: "split_percent t = s # ss"
    using split_percent_nonempty[of t] by (cases "split_percent t") auto
  show ?case using Cons s by simp
qed


lemma split_percent_no_percent: "seg \<in> set (split_percent t) \<Longrightarrow> CHR ''%'' \<notin> set seg"
proof (induction t arbitrary: seg)
  case Nil
  then show ?case by simp
next
  case (Cons c cs)
  obtain s ss where sp: "split_percent cs = s # ss"
    using split_percent_nonempty[of cs] by (cases "split_percent cs") auto
  show ?case
  proof (cases "c = CHR ''%''")
    case True
    then show ?thesis using Cons by auto
  next
    case False
    then have "seg = c # s \<or> seg \<in> set ss" using Cons.prems sp by simp
    then show ?thesis
    proof
      assume "seg = c # s"
      moreover have "CHR ''%'' \<notin> set s" using Cons.IH[of s] sp by simp
      ultimately show ?thesis using False by auto
    next
      assume "seg \<in> set ss"
      then show ?thesis using Cons.IH[of seg] sp by simp
    qed
  qed
qed

lemma not_ends_snoc: "c \<noteq> newline \<Longrightarrow> \<not> ends_with_newline (s @ [c])"
  by (simp add: ends_with_newline_def)

lemma not_ends_no_newline: "newline \<notin> set s \<Longrightarrow> \<not> ends_with_newline s"
proof
  assume a: "newline \<notin> set s" and "ends_with_newline s"
  then have "s \<noteq> []" "last s = newline" by (simp_all add: ends_with_newline_def)
  then have "newline \<in> set s" using last_in_set[of s] by metis
  then show False using a by simp
qed

lemma not_ends_append:
  "\<not> ends_with_newline s \<Longrightarrow> s \<noteq> [] \<Longrightarrow> \<not> ends_with_newline (r @ s)"
  by (simp add: ends_with_newline_def)

lemma remove_keeps: "\<not> ends_with_newline s \<Longrightarrow> remove_trailing_newline s = s"
  by (auto simp: remove_trailing_newline_def ends_with_newline_def)

lemma remove_snoc: "remove_trailing_newline (s @ [newline]) = s"
  by (simp add: remove_trailing_newline_def)

lemma tidy_removed: "tidy rep \<Longrightarrow> \<not> ends_with_newline (remove_trailing_newline rep)"
  unfolding tidy_def using remove_keeps remove_snoc by auto

lemma tidy_number: "newline \<notin> set s \<Longrightarrow> tidy s"
  by (simp add: tidy_def not_ends_no_newline)

lemma tidy_line: "c \<noteq> newline \<Longrightarrow> tidy (r @ [c] @ [newline])"
  unfolding tidy_def using not_ends_snoc[of c r] by (metis append_assoc)

lemma tidy_concat:
  assumes "\<And>a. \<exists>r c. f a = r @ [c] @ [newline] \<and> c \<noteq> newline"
  shows "tidy (pre @ concat (map f xs)) \<or> xs = []"
proof (cases xs rule: rev_cases)
  case Nil
  then show ?thesis by simp
next
  case (snoc ys y)
  obtain r c where rc: "f y = r @ [c] @ [newline]" "c \<noteq> newline" using assms by blast
  have "pre @ concat (map f xs) = (pre @ concat (map f ys) @ r) @ [c] @ [newline]"
    using snoc rc by simp
  then show ?thesis using tidy_line[OF rc(2)] by metis
qed

lemma coords_line_shape:
  assumes "\<forall>v. newline \<notin> set (number txt v)"
  shows "\<exists>r c. coords_line txt g w a = r @ [c] @ [newline] \<and> c \<noteq> newline"
proof -
  obtain x y z where p: "cartToFrac txt g (pos a) = (x, y, z)"
    by (cases "cartToFrac txt g (pos a)") auto
  let ?pre = "GetSymbol txt (atomicNumber a) @ '' ''
        @ (if w then string_of_nat (atomicNumber a) @ '' '' else [])
        @ number txt x @ '' '' @ number txt y"
  have eq: "coords_line txt g w a = (?pre @ '' '' @ number txt z) @ [newline]"
    by (simp add: coords_line_def p)
  show ?thesis
  proof (cases "number txt z" rule: rev_cases)
    case Nil
    have "CHR '' '' \<noteq> newline" by (simp add: newline_def)
    moreover have "coords_line txt g w a = ?pre @ [CHR '' ''] @ [newline]"
      using eq Nil by simp
    ultimately show ?thesis by blast
  next
    case (snoc ds d)
    have "d \<in> set (number txt z)" using snoc by simp
    then have "d \<noteq> newline" using assms by auto
    moreover have "coords_line txt g w a = (?pre @ '' '' @ ds) @ [d] @ [newline]"
      using eq snoc by simp
    ultimately show ?thesis by blast
  qed
qed

lemma poscar_line_shape:
  "\<exists>r c. poscar_line txt v = r @ [c] @ [newline] \<and> c \<noteq> newline"
proof -
  obtain x y z where v: "v = (x, y, z)" by (cases v) auto
  have "poscar_line txt v = (number txt x @ '' '' @ number txt y @ '' '' @ number txt z)
      @ [CHR '' ''] @ [newline]"
    by (simp add: poscar_line_def v)
  moreover have "CHR '' '' \<noteq> newline" by (simp add: newline_def)
  ultimately show ?thesis by blast
qed

lemma tidy_coords:
  assumes "\<forall>v. newline \<notin> set (number txt v)"
  shows "tidy (concat (map (coords_line txt g w) as))"
proof (cases "as = []")
  case True
  then show ?thesis by (simp add: tidy_def ends_with_newline_def)
next
  case False
  then show ?thesis
    using tidy_concat[of "coords_line txt g w" "[]" as] coords_line_shape[OF assms] by auto
qed

lemma tidy_vector: "\<not> ends_with_newline (vector_text txt scale v)"
proof -
  have "tab \<noteq> newline" by (simp add: tab_def newline_def)
  moreover have "vector_text txt scale v =
      (number txt (vec_at v 0 * scale) @ [tab] @ number txt (vec_at v 1 * scale) @ [tab]
        @ number txt (vec_at v 2 * scale)) @ [tab]"
    by (simp add: vector_text_def upt_rec numeral_2_eq_2 numeral_3_eq_3)
  ultimately show ?thesis using not_ends_snoc by metis
qed

lemma tidy_matrix: "tidy (matrix_text txt scale g)"
proof -
  have "tab \<noteq> newline" by (simp add: tab_def newline_def)
  moreover have "\<exists>r. matrix_text txt scale g = r @ [tab] @ [newline]"
    by (simp add: matrix_text_def upt_rec numeral_2_eq_2 numeral_3_eq_3)
  ultimately show ?thesis using tidy_line by metis
qed

lemma tidy_poscar: "tidy (poscar_text txt x)"
proof (cases "getAtomCoordsFrac txt (geom x) = []")
  case True
  have "CHR ''t'' \<noteq> newline" by (simp add: newline_def)
  moreover have "\<exists>r. poscar_text txt x = r @ [CHR ''t''] @ [newline]"
    using True by (simp add: poscar_text_def)
  ultimately show ?thesis using tidy_line by metis
next
  case False
  define pre where "pre = file_name x @ [newline]
     @ number txt 1 @ [newline]
     @ concat (map (poscar_line txt) (GetCellVectors (geom x)))
     @ concat (map (\<lambda>n. string_of_nat n @ '' '') (getNumberOfAtomsAlpha txt (geom x)))
     @ [newline]
     @ ''Direct'' @ [newline]"
  have "poscar_text txt x = pre @ concat (map (poscar_line txt) (getAtomCoordsFrac txt (geom x)))"
    by (simp add: poscar_text_def pre_def)
  then show ?thesis
    using tidy_concat[of "poscar_line txt" pre "getAtomCoordsFrac txt (geom x)"]
      poscar_line_shape False by auto
qed

lemma tidy_replacement:
  assumes "\<forall>v. newline \<notin> set (number txt v)"
  shows "tidy (replacement lib txt line x)"
proof -
  have n: "tidy (number txt v)" for v using assms by (simp add: tidy_number)
  have v: "tidy (vector_text txt scale w)" for scale w
    using tidy_vector by (simp add: tidy_def)
  have e: "tidy []" by (simp add: tidy_def ends_with_newline_def)
  show ?thesis
    unfolding replacement_def Let_def
    using n v e tidy_coords[OF assms] tidy_matrix tidy_poscar by simp
qed

text \<open>
  C6, as amended.  The template is split at every percent sign, and the percent signs are
  not part of the pieces.  The result of \<^verbatim>\<open>interpretTemplate\<close> is the pieces, each one
  interpreted, joined with nothing between them and followed by one newline.  A piece that
  neither the base class nor \<^verbatim>\<open>interpretKeyword\<close> recognizes stays as it is; when no piece
  is recognized the result is the template without its percent signs, and the newline.
  Where \<^verbatim>\<open>interpretKeyword\<close> replaces a line, the replacement has lost its trailing
  newline and ends in none (numbers being printed without newlines).
\<close>

theorem interpretTemplate_segments:
  assumes "\<forall>v. newline \<notin> set (number txt v)"
  shows "interpretTemplate lib txt t x
           = concat (map (interpret_line lib txt x) (split_percent t)) @ [newline]
    \<and> (\<forall>seg. interpretKeyword_base txt seg x = seg \<and> seg \<notin> set xtal_keywords
           \<longrightarrow> interpret_line lib txt x seg = seg)
    \<and> (\<forall>line. interpretKeyword lib txt line x = line
           \<or> (interpretKeyword lib txt line x
                 = remove_trailing_newline (replacement lib txt line x)
               \<and> \<not> ends_with_newline (interpretKeyword lib txt line x)))
    \<and> ((\<forall>seg \<in> set (split_percent t).
           interpretKeyword_base txt seg x = seg \<and> seg \<notin> set xtal_keywords)
         \<longrightarrow> interpretTemplate lib txt t x = filter (\<lambda>c. c \<noteq> CHR ''%'') t @ [newline])
    \<and> (\<forall>seg \<in> set (split_percent t). CHR ''%'' \<notin> set seg)
    \<and> concat (split_percent t) = filter (\<lambda>c. c \<noteq> CHR ''%'') t"
proof -
  have 1: "interpretTemplate lib txt t x
           = concat (map (interpret_line lib txt x) (split_percent t)) @ [newline]"
    by (simp add: interpretTemplate_def)
  have 2: "interpret_line lib txt x seg = seg"
    if "interpretKeyword_base txt seg x = seg \<and> seg \<notin> set xtal_keywords" for seg
    using that by (simp add: interpret_line_unrecognized)
  have 3: "interpretKeyword lib txt line x = line
           \<or> (interpretKeyword lib txt line x
                 = remove_trailing_newline (replacement lib txt line x)
               \<and> \<not> ends_with_newline (interpretKeyword lib txt line x))" for line
  proof (cases "replacement lib txt line x = []")
    case True
    then show ?thesis by (simp add: interpretKeyword_def)
  next
    case False
    then have "interpretKeyword lib txt line x
        = remove_trailing_newline (replacement lib txt line x)"
      by (simp add: interpretKeyword_def)
    then show ?thesis using tidy_removed[OF tidy_replacement[OF assms]] by simp
  qed
  have 4: "interpretTemplate lib txt t x = filter (\<lambda>c. c \<noteq> CHR ''%'') t @ [newline]"
    if a: "\<forall>seg \<in> set (split_percent t).
           interpretKeyword_base txt seg x = seg \<and> seg \<notin> set xtal_keywords"
  proof -
    have "map (interpret_line lib txt x) (split_percent t) = split_percent t"
      using a 2 by (simp add: map_idI)
    then show ?thesis unfolding 1 by (simp add: concat_split_percent)
  qed
  have 5: "\<forall>seg \<in> set (split_percent t). CHR ''%'' \<notin> set seg"
    using split_percent_no_percent by blast
  have 6: "concat (split_percent t) = filter (\<lambda>c. c \<noteq> CHR ''%'') t"
    by (rule concat_split_percent)
  show ?thesis using 1 2 3 4 5 6 by blast
qed

lemma sample_text_number: "\<forall>v. newline \<notin> set (number sample_text v)"
  by (simp add: sample_text_def newline_def)

theorem interpretTemplate_segments_witness:
  "interpretTemplate box_library sample_text ''cell %a% %foo% %gen%x%id%'' cube_sample
     = ''cell 4 foo 1x2'' @ [newline]
   \<and> interpret_line box_library sample_text cube_sample ''foo'' = ''foo''
   \<and> interpretKeyword box_library sample_text ''cellMatrixAngstrom'' cube_sample
     = ''4'' @ [tab] @ ''0'' @ [tab] @ ''0'' @ [tab, newline]
       @ ''0'' @ [tab] @ ''4'' @ [tab] @ ''0'' @ [tab, newline]
       @ ''0'' @ [tab] @ ''0'' @ [tab] @ ''4'' @ [tab]
   \<and> \<not> ends_with_newline
         (interpretKeyword box_library sample_text ''cellMatrixAngstrom'' cube_sample)
   \<and> interpretTemplate box_library sample_text ''%foo% and %bar%'' cube_sample
     = ''foo and bar'' @ [newline]
   \<and> split_percent ''%foo% and %bar%'' = ['''', ''foo'', '' and '', ''bar'', '''']
   \<and> CHR ''%'' \<notin> set ''foo''"
proof -
  note T = interpretTemplate_segments[OF sample_text_number, of box_library _ cube_sample]
  have e1: "concat (map (interpret_line box_library sample_text cube_sample)
              (split_percent ''cell %a% %foo% %gen%x%id%'')) = ''cell 4 foo 1x2''"
    by code_simp
  have r1: "interpretTemplate box_library sample_text ''cell %a% %foo% %gen%x%id%'' cube_sample
     = ''cell 4 foo 1x2'' @ [newline]"
    using T[of "''cell %a% %foo% %gen%x%id%''"] e1 by simp
  have h2: "interpretKeyword_base sample_text ''foo'' cube_sample = ''foo''
      \<and> ''foo'' \<notin> set xtal_keywords" by code_simp
  have r2: "interpret_line box_library sample_text cube_sample ''foo'' = ''foo''"
    using T[of "[]"] h2 by blast
  have e3: "interpretKeyword box_library sample_text ''cellMatrixAngstrom'' cube_sample
     = ''4'' @ [tab] @ ''0'' @ [tab] @ ''0'' @ [tab, newline]
       @ ''0'' @ [tab] @ ''4'' @ [tab] @ ''0'' @ [tab, newline]
       @ ''0'' @ [tab] @ ''0'' @ [tab] @ ''4'' @ [tab]"
    by code_simp
  have n3: "interpretKeyword box_library sample_text ''cellMatrixAngstrom'' cube_sample
      \<noteq> ''cellMatrixAngstrom''"
    by code_simp
  have r3: "\<not> ends_with_newline
         (interpretKeyword box_library sample_text ''cellMatrixAngstrom'' cube_sample)"
    using T[of "[]"] n3 by blast
  have h4: "\<forall>seg \<in> set (split_percent ''%foo% and %bar%'').
      interpretKeyword_base sample_text seg cube_sample = seg \<and> seg \<notin> set xtal_keywords"
    by code_simp
  have e4: "filter (\<lambda>c. c \<noteq> CHR ''%'') ''%foo% and %bar%'' = ''foo and bar''" by simp
  have r4: "interpretTemplate box_library sample_text ''%foo% and %bar%'' cube_sample
     = ''foo and bar'' @ [newline]"
    using T[of "''%foo% and %bar%''"] h4 e4 by simp
  have e5: "split_percent ''%foo% and %bar%'' = ['''', ''foo'', '' and '', ''bar'', '''']"
    by code_simp
  have "\<forall>seg \<in> set (split_percent ''%foo% and %bar%''). CHR ''%'' \<notin> set seg"
    using T[of "''%foo% and %bar%''"] by blast
  then have r5: "CHR ''%'' \<notin> set ''foo''" unfolding e5 by simp
  show ?thesis using r1 r2 e3 r3 r4 e5 r5 by blast
qed

text \<open>
  C6 as stated fails: the percent signs that delimit a segment are dropped by the
  splitting and not put back by the joining, so a segment \<^verbatim>\<open>%foo%\<close> that no keyword
  matches comes out as \<^verbatim>\<open>foo\<close>, and a percent sign that delimits nothing is lost as well.
\<close>

theorem interpretTemplate_percent_counterexample:
  "interpretKeyword_base sample_text ''foo'' cube_sample = ''foo''
   \<and> ''foo'' \<notin> set xtal_keywords
   \<and> interpretTemplate box_library sample_text ''%foo%'' cube_sample = ''foo'' @ [newline]
   \<and> interpretTemplate box_library sample_text ''%foo%'' cube_sample \<noteq> ''%foo%'' @ [newline]
   \<and> interpretTemplate box_library sample_text ''100% sure'' cube_sample
        = ''100 sure'' @ [newline]"
  by code_simp


end
